theory Spec2Isabelle
  imports Main "HOL-Library.Word"
begin

unbundle bit_operations_syntax

section \<open>Machine types, strings and errors\<close>

text \<open>
  Go's \<^verbatim>\<open>byte\<close>, \<^verbatim>\<open>uint16\<close> (a \<^verbatim>\<open>net.Port\<close>),
  \<^verbatim>\<open>int32\<close> and \<^verbatim>\<open>uint32\<close> are words of their width. An
  \<^verbatim>\<open>int32\<close> is read as a signed number with \<open>sint\<close>; the conversion
  \<^verbatim>\<open>uint32(x)\<close> keeps the bits. A Go string is a \<open>string\<close>; a buffer's
  \<^verbatim>\<open>String()\<close> turns its bytes into one, byte for byte.
\<close>

type_synonym byte = "8 word"
type_synonym port = "16 word"
type_synonym int32 = "32 word"
type_synonym uint32 = "32 word"

definition string_of_bytes :: "byte list \<Rightarrow> string" where
  "string_of_bytes bs = map (\<lambda>b. char_of (unat b)) bs"

definition bytes_of_string :: "string \<Rightarrow> byte list" where
  "bytes_of_string s = map (\<lambda>c. of_char c) s"

text \<open>
  Errors are values. An error of the \<^verbatim>\<open>common/errors\<close> package keeps the
  arguments it was built from (strings and bytes), the severity it was marked with
  (\<open>None\<close> when the source calls no \<^verbatim>\<open>AtInfo\<close>/\<^verbatim>\<open>AtWarning\<close>/\<^verbatim>\<open>AtError\<close>)
  and the error it wraps (\<^verbatim>\<open>Base\<close>). The sentinels are those the source
  names. \<open>RuntimePanic\<close> stands for a Go run-time panic (an index out of range, a nil
  dereference, a failed type assertion).
\<close>

datatype severity = Severity_Info | Severity_Warning | Severity_Error

datatype msg_part = Str string | Byte byte

datatype goerr =
    io_EOF
  | io_ErrUnexpectedEOF
  | io_ErrClosedPipe
  | context_Canceled
  | OtherError string
  | RuntimePanic
  | Xray xerror
and xerror =
    Error (message: "msg_part list") (sev: "severity option") (inner: "goerr option")

definition errors_New :: "msg_part list \<Rightarrow> xerror" where
  "errors_New msg = Error msg None None"

definition Base :: "xerror \<Rightarrow> goerr \<Rightarrow> xerror" where
  "Base e b = Error (message e) (sev e) (Some b)"

definition AtInfo :: "xerror \<Rightarrow> xerror" where
  "AtInfo e = Error (message e) (Some Severity_Info) (inner e)"

definition AtWarning :: "xerror \<Rightarrow> xerror" where
  "AtWarning e = Error (message e) (Some Severity_Warning) (inner e)"

text \<open>
  Go's \<^verbatim>\<open>errors.Is\<close>: the error itself or any error down its chain of wrapped
  errors is the target.
\<close>

fun errors_Is :: "goerr \<Rightarrow> goerr \<Rightarrow> bool" where
  "errors_Is e t =
     (e = t \<or> (case e of Xray (Error _ _ (Some i)) \<Rightarrow> errors_Is i t | _ \<Rightarrow> False))"

section \<open>HTTP proxy configuration\<close>

text \<open>\<^verbatim>\<open>enum AuthType\<close> of the protobuf declaration.\<close>

datatype AuthType = AuthType_NO_AUTH | AuthType_PASSWORD | AuthType_KEYAUTH

text \<open>
  \<^verbatim>\<open>message ServerConfig\<close> of package http. A Go map may be \<^verbatim>\<open>nil\<close>:
  \<open>None\<close>.
\<close>

record http_ServerConfig =
  http_Accounts :: "(string \<rightharpoonup> string) option"
  AllowTransparent :: bool
  UserLevel :: uint32
  http_AuthType :: AuthType
  http_Keys :: "(string \<rightharpoonup> int32) option"

definition ValidKey :: int32 where
  "ValidKey = 1"

text \<open>\<^verbatim>\<open>func (sc *ServerConfig) ValidateKey(key string) bool\<close>, package http.\<close>

definition http_ValidateKey :: "http_ServerConfig \<Rightarrow> string \<Rightarrow> bool" where
  "http_ValidateKey sc key =
     (case http_Keys sc of
        None \<Rightarrow> False
      | Some keys \<Rightarrow>
          (case keys key of
             None \<Rightarrow> False
           | Some v \<Rightarrow> v = ValidKey))"

text \<open>\<^verbatim>\<open>func (sc *ServerConfig) HasAccount(username, password string) bool\<close>, package http.\<close>

definition http_HasAccount :: "http_ServerConfig \<Rightarrow> string \<Rightarrow> string \<Rightarrow> bool" where
  "http_HasAccount sc username password =
     (case http_Accounts sc of
        None \<Rightarrow> False
      | Some accounts \<Rightarrow>
          (case accounts username of
             None \<Rightarrow> False
           | Some p \<Rightarrow> p = password))"

text \<open>
  The JSON side (package conf). \<^verbatim>\<open>Accounts\<close> is a slice of pointers, so an entry
  may be \<^verbatim>\<open>nil\<close>; \<^verbatim>\<open>Keys\<close> is a slice that may be \<^verbatim>\<open>nil\<close>.
\<close>

record HTTPAccount =
  conf_Username :: string
  conf_Password :: string

record HTTPServerConfig =
  conf_Accounts :: "HTTPAccount option list"
  conf_Transparent :: bool
  conf_UserLevel :: uint32
  conf_AuthMethod :: string
  conf_Keys :: "string list option"

definition HTTPAuthMethodNoAuth :: string where
  "HTTPAuthMethodNoAuth = ''noauth''"

definition HTTPAuthMethodUserPass :: string where
  "HTTPAuthMethodUserPass = ''password''"

definition HTTPAuthMethodKeyAuth :: string where
  "HTTPAuthMethodKeyAuth = ''keyauth''"

text \<open>The loop \<^verbatim>\<open>for _, key := range c.Keys { config.Keys[key] = http.ValidKey }\<close>.\<close>

fun Build_keys :: "string list \<Rightarrow> (string \<rightharpoonup> int32) \<Rightarrow> (string \<rightharpoonup> int32)" where
  "Build_keys [] m = m"
| "Build_keys (key # ks) m = Build_keys ks (m(key \<mapsto> ValidKey))"

text \<open>
  The loop over \<^verbatim>\<open>c.Accounts\<close>; reading \<^verbatim>\<open>account.Username\<close> of a
  \<^verbatim>\<open>nil\<close> entry panics.
\<close>

fun Build_accounts ::
  "HTTPAccount option list \<Rightarrow> (string \<rightharpoonup> string) \<Rightarrow> goerr + (string \<rightharpoonup> string)" where
  "Build_accounts [] m = Inr m"
| "Build_accounts (None # as) m = Inl RuntimePanic"
| "Build_accounts (Some account # as) m =
     Build_accounts as (m(conf_Username account \<mapsto> conf_Password account))"

text \<open>\<^verbatim>\<open>func (c *HTTPServerConfig) Build() (proto.Message, error)\<close>.\<close>

definition Build :: "HTTPServerConfig \<Rightarrow> goerr + http_ServerConfig" where
  "Build c =
     (let config = \<lparr> http_Accounts = None, AllowTransparent = conf_Transparent c,
                     UserLevel = conf_UserLevel c, http_AuthType = AuthType_NO_AUTH,
                     http_Keys = None \<rparr>;
          config =
            (if conf_AuthMethod c = HTTPAuthMethodNoAuth then
               config\<lparr>http_AuthType := AuthType_NO_AUTH\<rparr>
             else if conf_AuthMethod c = HTTPAuthMethodUserPass then
               config\<lparr>http_AuthType := AuthType_PASSWORD\<rparr>
             else if conf_AuthMethod c = HTTPAuthMethodKeyAuth then
               (let config = config\<lparr>http_AuthType := AuthType_KEYAUTH\<rparr> in
                case conf_Keys c of
                  None \<Rightarrow> config
                | Some ks \<Rightarrow> config\<lparr>http_Keys := Some (Build_keys ks Map.empty)\<rparr>)
             else
               config\<lparr>http_AuthType := AuthType_NO_AUTH\<rparr>)
      in if length (conf_Accounts c) > 0 then
           (case Build_accounts (conf_Accounts c) Map.empty of
              Inl e \<Rightarrow> Inl e
            | Inr m \<Rightarrow> Inr (config\<lparr>http_Accounts := Some m\<rparr>))
         else Inr config)"

section \<open>Addresses, requests and the stream model\<close>

text \<open>
  A \<^verbatim>\<open>net.Address\<close> is an IPv4 address (4 bytes), an IPv6 address (16 bytes) or a
  domain name; a \<^verbatim>\<open>nil\<close> address is \<open>None\<close>. \<open>valid_address\<close> says that the
  bytes have the length of their family and that a domain's length fits the one length
  byte of the wire format.
\<close>

datatype address = IPv4Address "byte list" | IPv6Address "byte list" | DomainAddress string

fun valid_address :: "address option \<Rightarrow> bool" where
  "valid_address None = False"
| "valid_address (Some (IPv4Address ip)) = (length ip = 4)"
| "valid_address (Some (IPv6Address ip)) = (length ip = 16)"
| "valid_address (Some (DomainAddress d)) = (length d \<le> 255)"

text \<open>
  Modelled from the spec: \<^verbatim>\<open>net.IPAddress\<close> (package \<^verbatim>\<open>common/net\<close> is not
  among the sources) makes an address of 4 or of 16 bytes, and \<^verbatim>\<open>nil\<close> of anything
  else.
\<close>

definition IPAddress :: "byte list \<Rightarrow> address option" where
  "IPAddress ip =
     (if length ip = 4 then Some (IPv4Address ip)
      else if length ip = 16 then Some (IPv6Address ip)
      else None)"

text \<open>
  Modelled from the spec: \<^verbatim>\<open>Address.IP()\<close>, not among the sources, gives the bytes of
  an IP address; on a domain it has none to give (the call panics): \<open>None\<close>.
\<close>

fun IP :: "address \<Rightarrow> byte list option" where
  "IP (IPv4Address ip) = Some ip"
| "IP (IPv6Address ip) = Some ip"
| "IP (DomainAddress d) = None"

text \<open>Modelled from the spec: \<^verbatim>\<open>net.AnyIP\<close>, not among the sources, is 0.0.0.0.\<close>

definition AnyIP :: address where
  "AnyIP = IPv4Address [0, 0, 0, 0]"

text \<open>
  Modelled from the spec: \<^verbatim>\<open>net.PortFromBytes\<close>, not among the sources, reads a port
  from two bytes, big-endian. Every call in the sources passes two bytes.
\<close>

fun PortFromBytes :: "byte list \<Rightarrow> port" where
  "PortFromBytes (hi # lo # _) = push_bit 8 (ucast hi) OR ucast lo"
| "PortFromBytes _ = 0"

text \<open>\<^verbatim>\<open>binary.BigEndian.PutUint16\<close> of Go's standard library.\<close>

definition PutUint16 :: "port \<Rightarrow> byte list" where
  "PutUint16 p = [ucast (drop_bit 8 p), ucast p]"

text \<open>The socks \<^verbatim>\<open>Account\<close>, \<^verbatim>\<open>protocol.MemoryUser\<close> and \<^verbatim>\<open>protocol.RequestHeader\<close>,
  with the fields the sources use. \<open>RequestCommand_Zero\<close> is the command of a header made
  by \<^verbatim>\<open>new\<close> before one is assigned.\<close>

record Account =
  Username :: string
  Password :: string

record MemoryUser =
  Email :: string
  UserAccount :: "Account option"

datatype RequestCommand = RequestCommand_Zero | RequestCommandTCP | RequestCommandUDP

record RequestHeader =
  Version :: byte
  Command :: RequestCommand
  Address :: "address option"
  Port :: port
  User :: "MemoryUser option"

text \<open>\<^verbatim>\<open>ServerConfig\<close> of package socks, with the fields the sources use.\<close>

record ServerConfig =
  AuthType :: AuthType
  Accounts :: "(string \<rightharpoonup> string) option"
  Keys :: "(string \<rightharpoonup> int32) option"
  cfg_Address :: "address option"
  UdpEnabled :: bool

record ServerSession =
  config :: ServerConfig
  sess_address :: "address option"
  sess_port :: port
  localAddress :: "address option"

text \<open>\<^verbatim>\<open>func (c *ServerConfig) HasAccount(username, password string) bool\<close>, package socks.\<close>

definition HasAccount :: "ServerConfig \<Rightarrow> string \<Rightarrow> string \<Rightarrow> bool" where
  "HasAccount c username password =
     (case Accounts c of
        None \<Rightarrow> False
      | Some accounts \<Rightarrow>
          (case accounts username of
             None \<Rightarrow> False
           | Some storedPassed \<Rightarrow> storedPassed = password))"

text \<open>\<^verbatim>\<open>func (c *ServerConfig) ValidateKey(key string) bool\<close>, package socks.\<close>

definition ValidateKey :: "ServerConfig \<Rightarrow> string \<Rightarrow> bool" where
  "ValidateKey c key =
     (case Keys c of
        None \<Rightarrow> False
      | Some keys \<Rightarrow>
          (case keys key of
             None \<Rightarrow> False
           | Some v \<Rightarrow> v = ValidKey))"

text \<open>
  The collaborators of the protocol code that are not among the sources, as parameters:
  the capacity of a \<^verbatim>\<open>buf.Buffer\<close>, the behaviour of the \<^verbatim>\<open>io.Writer\<close> (the
  outcome of writing some bytes after the writes made so far) and
  \<^verbatim>\<open>net.ParseAddress\<close>.

  A reader is the list of bytes still to come. A writer is the list of the byte strings
  handed to it so far, one entry for each call of \<^verbatim>\<open>buf.WriteAllBytes\<close>, in order.
\<close>

record deps =
  buf_Size :: nat
  write_result :: "byte list list \<Rightarrow> byte list \<Rightarrow> goerr option"
  ParseAddress :: "string \<Rightarrow> address"

type_synonym reader = "byte list"
type_synonym writer = "byte list list"

text \<open>
  Modelled from the spec: \<^verbatim>\<open>Buffer.ReadFullFrom(reader, n)\<close> (package
  \<^verbatim>\<open>common/buf\<close> is not among the sources) takes exactly \<open>n\<close> bytes off the reader,
  or fails on a short read, as \<^verbatim>\<open>io.ReadFull\<close> does. The capacity of the buffer
  plays no part here: the sources read at most 255 bytes at a time.
\<close>

definition ReadFullFrom :: "reader \<Rightarrow> nat \<Rightarrow> (goerr + byte list) \<times> reader" where
  "ReadFullFrom r n =
     (if n \<le> length r then (Inr (take n r), drop n r)
      else (Inl (if r = [] then io_EOF else io_ErrUnexpectedEOF), []))"

text \<open>
  Modelled from the spec: \<^verbatim>\<open>buf.WriteAllBytes\<close>, not among the sources, hands the
  bytes to the writer and returns the writer's outcome.
\<close>

definition WriteAllBytes :: "deps \<Rightarrow> writer \<Rightarrow> byte list \<Rightarrow> goerr option \<times> writer" where
  "WriteAllBytes D w bs = (write_result D w bs, w @ [bs])"

text \<open>
  Modelled from the spec: \<^verbatim>\<open>Buffer.BytesRange(from, to)\<close>, not among the sources, is
  the slice of the buffer's bytes from \<open>from\<close> up to \<open>to\<close>.
\<close>

definition BytesRange :: "byte list \<Rightarrow> nat \<Rightarrow> nat \<Rightarrow> byte list" where
  "BytesRange b from to = take (to - from) (drop from b)"

section \<open>The SOCKS protocol: constants and the address codec\<close>

definition socks5Version :: byte where "socks5Version = 0x05"
definition socks4Version :: byte where "socks4Version = 0x04"
definition cmdTCPConnect :: byte where "cmdTCPConnect = 0x01"
definition cmdTCPBind :: byte where "cmdTCPBind = 0x02"
definition cmdUDPAssociate :: byte where "cmdUDPAssociate = 0x03"
definition cmdTorResolve :: byte where "cmdTorResolve = 0xF0"
definition cmdTorResolvePTR :: byte where "cmdTorResolvePTR = 0xF1"
definition socks4RequestGranted :: byte where "socks4RequestGranted = 90"
definition socks4RequestRejected :: byte where "socks4RequestRejected = 91"
definition authNotRequired :: byte where "authNotRequired = 0x00"
definition authPassword :: byte where "authPassword = 0x02"
definition authNoMatchingMethod :: byte where "authNoMatchingMethod = 0xFF"
definition statusSuccess :: byte where "statusSuccess = 0x00"
definition statusCmdNotSupport :: byte where "statusCmdNotSupport = 0x07"

text \<open>
  Modelled from the spec: \<^verbatim>\<open>protocol.NewAddressParser\<close> and its
  \<^verbatim>\<open>ReadAddressPort\<close> and \<^verbatim>\<open>WriteAddressPort\<close> are not among the sources.
  The spec has the address codec parse and serialise addresses and ports in the SOCKS wire
  format of RFC 1928: a family byte (\<open>0x01\<close> IPv4, \<open>0x04\<close> IPv6, \<open>0x03\<close> domain, as
  \<^verbatim>\<open>addrParser\<close> declares them), then 4 bytes, 16 bytes, or a length byte and
  that many bytes of domain name, then the port, big-endian. Writing fails for a
  \<^verbatim>\<open>nil\<close> address and for one that \<open>valid_address\<close> excludes; it does not
  look at the characters of a domain name.
\<close>

definition WriteAddressPort :: "address option \<Rightarrow> port \<Rightarrow> goerr + byte list" where
  "WriteAddressPort a p =
     (if \<not> valid_address a then Inl (Xray (errors_New [Str ''invalid address'']))
      else case a of
        None \<Rightarrow> Inl (Xray (errors_New [Str ''invalid address'']))
      | Some (IPv4Address ip) \<Rightarrow> Inr ([0x01] @ ip @ PutUint16 p)
      | Some (IPv6Address ip) \<Rightarrow> Inr ([0x04] @ ip @ PutUint16 p)
      | Some (DomainAddress d) \<Rightarrow>
          Inr ([0x03, of_nat (length d)] @ bytes_of_string d @ PutUint16 p))"

text \<open>
  Modelled from the spec: the domain checks of the reading half of the address codec,
  which is not among the sources. A domain name read off the wire is accepted when it is
  not empty and is made of letters, digits, \<open>-\<close>, \<open>.\<close> and \<open>_\<close>; one that starts
  with a digit or with \<open>[\<close> is first tried as an IP literal.
\<close>

definition isValidDomainChar :: "char \<Rightarrow> bool" where
  "isValidDomainChar c =
     (let n = (of_char c :: nat) in
      (48 \<le> n \<and> n \<le> 57) \<or> (97 \<le> n \<and> n \<le> 122) \<or> (65 \<le> n \<and> n \<le> 90)
      \<or> n = 45 \<or> n = 46 \<or> n = 95)"

definition isValidDomain :: "string \<Rightarrow> bool" where
  "isValidDomain d = list_all isValidDomainChar d"

definition maybeIPPrefix :: "char \<Rightarrow> bool" where
  "maybeIPPrefix c =
     (let n = (of_char c :: nat) in n = 91 \<or> (48 \<le> n \<and> n \<le> 57))"

fun IsIP :: "address \<Rightarrow> bool" where
  "IsIP (IPv4Address ip) = True"
| "IsIP (IPv6Address ip) = True"
| "IsIP (DomainAddress d) = False"

text \<open>
  Modelled from the spec: the reading half of the address codec, not among the sources;
  the address first. The bytes of a domain name that \<^verbatim>\<open>net.ParseAddress\<close> reads as
  an IP literal come back as that IP address; a domain name that is empty or holds a
  character outside the accepted ones is an error.
\<close>

definition readAddress :: "deps \<Rightarrow> reader \<Rightarrow> (goerr + address) \<times> reader" where
  "readAddress D r =
     (case ReadFullFrom r 1 of
        (Inl err, r) \<Rightarrow> (Inl err, r)
      | (Inr t, r) \<Rightarrow>
          if t = [0x01] then
            (case ReadFullFrom r 4 of
               (Inl err, r) \<Rightarrow> (Inl err, r)
             | (Inr ip, r) \<Rightarrow> (Inr (IPv4Address ip), r))
          else if t = [0x04] then
            (case ReadFullFrom r 16 of
               (Inl err, r) \<Rightarrow> (Inl err, r)
             | (Inr ip, r) \<Rightarrow> (Inr (IPv6Address ip), r))
          else if t = [0x03] then
            (case ReadFullFrom r 1 of
               (Inl err, r) \<Rightarrow> (Inl err, r)
             | (Inr n, r) \<Rightarrow>
                 (case ReadFullFrom r (unat (hd n)) of
                    (Inl err, r) \<Rightarrow> (Inl err, r)
                  | (Inr d, r) \<Rightarrow>
                      let domain = string_of_bytes d in
                      if domain \<noteq> [] \<and> maybeIPPrefix (hd domain)
                         \<and> IsIP (ParseAddress D domain) then
                        (Inr (ParseAddress D domain), r)
                      else if domain = [] \<or> \<not> isValidDomain domain then
                        (Inl (Xray (errors_New [Str ''invalid domain name: '', Str domain])), r)
                      else (Inr (DomainAddress domain), r)))
          else (Inl (Xray (errors_New [Str ''unknown address type: '', Byte (hd t)])), r))"

text \<open>
  Modelled from the spec: \<^verbatim>\<open>ReadAddressPort\<close> of the address codec, not among the
  sources: the address, then the two bytes of the port.
\<close>

definition ReadAddressPort :: "deps \<Rightarrow> reader \<Rightarrow> (goerr + address \<times> port) \<times> reader" where
  "ReadAddressPort D r =
     (case readAddress D r of
        (Inl err, r) \<Rightarrow> (Inl err, r)
      | (Inr a, r) \<Rightarrow>
          (case ReadFullFrom r 2 of
             (Inl err, r) \<Rightarrow> (Inl err, r)
           | (Inr pb, r) \<Rightarrow> (Inr (a, PortFromBytes pb), r)))"

section \<open>The UDP relay codec\<close>

text \<open>
  Modelled from the spec: \<^verbatim>\<open>Buffer.Write\<close> of package \<^verbatim>\<open>common/buf\<close>, not among
  the sources. A buffer has a fixed capacity (the one \<^verbatim>\<open>IsFull\<close> tests in
  \<^verbatim>\<open>ReadUntilNull\<close>); a write keeps the bytes that still fit and drops the rest
  without an error.
\<close>

definition Buffer_Write :: "deps \<Rightarrow> byte list \<Rightarrow> byte list \<Rightarrow> byte list" where
  "Buffer_Write D b data = b @ take (buf_Size D - length b) data"

text \<open>
  The address and port a request header can be sent and read back with: an IPv4 or IPv6
  address, or a domain name of at most 255 bytes that the reading half accepts as a
  domain name. \<open>udp_header_length\<close> is the number of bytes of a packet before its
  payload: three, the family byte, the address, the port.
\<close>

fun codec_address :: "deps \<Rightarrow> address option \<Rightarrow> bool" where
  "codec_address D None = False"
| "codec_address D (Some (IPv4Address ip)) = (length ip = 4)"
| "codec_address D (Some (IPv6Address ip)) = (length ip = 16)"
| "codec_address D (Some (DomainAddress d)) =
     (length d \<le> 255 \<and> d \<noteq> [] \<and> isValidDomain d
      \<and> \<not> (maybeIPPrefix (hd d) \<and> IsIP (ParseAddress D d)))"

fun udp_header_length :: "address option \<Rightarrow> nat" where
  "udp_header_length None = 3"
| "udp_header_length (Some (IPv4Address ip)) = 3 + 1 + length ip + 2"
| "udp_header_length (Some (IPv6Address ip)) = 3 + 1 + length ip + 2"
| "udp_header_length (Some (DomainAddress d)) = 3 + 2 + length d + 2"

text \<open>
  \<^verbatim>\<open>func EncodeUDPPacket(request *protocol.RequestHeader, data []byte) (*buf.Buffer, error)\<close>:
  the bytes of the buffer it returns. The three writes go to one buffer made by
  \<^verbatim>\<open>buf.New()\<close>; the address codec writes the address and the port into it.
\<close>

definition EncodeUDPPacket :: "deps \<Rightarrow> RequestHeader \<Rightarrow> byte list \<Rightarrow> goerr + byte list" where
  "EncodeUDPPacket D request data =
     (let b = Buffer_Write D [] [0, 0, 0] in
      case WriteAddressPort (Address request) (Port request) of
        Inl err \<Rightarrow> Inl err
      | Inr ap \<Rightarrow>
          let b = Buffer_Write D b ap in
          Inr (Buffer_Write D b data))"

text \<open>
  \<^verbatim>\<open>func DecodeUDPPacket(packet *buf.Buffer) (*protocol.RequestHeader, error)\<close>. The
  function advances the packet it is given: the second component is what the packet
  holds afterwards.
\<close>

definition DecodeUDPPacket :: "deps \<Rightarrow> byte list \<Rightarrow> (goerr + RequestHeader) \<times> byte list" where
  "DecodeUDPPacket D packet =
     (if length packet < 5 then
        (Inl (Xray (errors_New [Str ''insufficient length of packet.''])), packet)
      else
        let request = \<lparr> Version = socks5Version, Command = RequestCommandUDP,
                        Address = None, Port = 0, User = None \<rparr>
        in if packet ! 2 \<noteq> 0 then
             (Inl (Xray (errors_New [Str ''discarding fragmented payload.''])), packet)
           else
             let packet = drop 3 packet in
             case ReadAddressPort D packet of
               (Inl err, packet) \<Rightarrow>
                 (Inl (Xray (Base (errors_New [Str ''failed to read UDP header'']) err)), packet)
             | (Inr (addr, port), packet) \<Rightarrow>
                 (Inr (request\<lparr>Address := Some addr, Port := port\<rparr>), packet))"

section \<open>The SOCKS handshake, server role\<close>

text \<open>
  Every function takes the reader and the writer and returns them as they are afterwards,
  beside its result: \<open>Inl\<close> an error, \<open>Inr\<close> the value.
\<close>

text \<open>
  \<^verbatim>\<open>func ReadUntilNull(reader io.Reader) (string, error)\<close>. The loop reads one byte at
  a time into a buffer \<open>b\<close>; \<^verbatim>\<open>b.IsFull()\<close> holds when the buffer has reached its
  capacity.
\<close>

fun ReadUntilNull_loop :: "nat \<Rightarrow> byte list \<Rightarrow> reader \<Rightarrow> (goerr + string) \<times> reader" where
  "ReadUntilNull_loop cap b [] = (Inl io_EOF, [])"
| "ReadUntilNull_loop cap b (x # r) =
     (let b = b @ [x] in
      if x = 0x00 then (Inr (string_of_bytes (butlast b)), r)
      else if cap \<le> length b then (Inl (Xray (errors_New [Str ''buffer overrun''])), r)
      else ReadUntilNull_loop cap b r)"

definition ReadUntilNull :: "deps \<Rightarrow> reader \<Rightarrow> (goerr + string) \<times> reader" where
  "ReadUntilNull D reader = ReadUntilNull_loop (buf_Size D) [] reader"

text \<open>\<^verbatim>\<open>func ReadUsernamePassword(reader io.Reader) (string, string, error)\<close>.\<close>

definition ReadUsernamePassword :: "reader \<Rightarrow> (goerr + string \<times> string) \<times> reader" where
  "ReadUsernamePassword reader =
     (case ReadFullFrom reader 2 of
        (Inl err, reader) \<Rightarrow> (Inl err, reader)
      | (Inr buffer, reader) \<Rightarrow>
          let nUsername = unat (buffer ! 1) in
          case ReadFullFrom reader nUsername of
            (Inl err, reader) \<Rightarrow> (Inl err, reader)
          | (Inr buffer, reader) \<Rightarrow>
              let username = string_of_bytes buffer in
              case ReadFullFrom reader 1 of
                (Inl err, reader) \<Rightarrow> (Inl err, reader)
              | (Inr buffer, reader) \<Rightarrow>
                  let nPassword = unat (buffer ! 0) in
                  case ReadFullFrom reader nPassword of
                    (Inl err, reader) \<Rightarrow> (Inl err, reader)
                  | (Inr buffer, reader) \<Rightarrow>
                      (Inr (username, string_of_bytes buffer), reader))"

text \<open>\<^verbatim>\<open>func hasAuthMethod(expectedAuth byte, authCandidates []byte) bool\<close>.\<close>

fun hasAuthMethod :: "byte \<Rightarrow> byte list \<Rightarrow> bool" where
  "hasAuthMethod expectedAuth [] = False"
| "hasAuthMethod expectedAuth (a # authCandidates) =
     (if a = expectedAuth then True else hasAuthMethod expectedAuth authCandidates)"

definition writeSocks5AuthenticationResponse ::
  "deps \<Rightarrow> writer \<Rightarrow> byte \<Rightarrow> byte \<Rightarrow> goerr option \<times> writer" where
  "writeSocks5AuthenticationResponse D writer version auth =
     WriteAllBytes D writer [version, auth]"

definition writeSocks5Response ::
  "deps \<Rightarrow> writer \<Rightarrow> byte \<Rightarrow> address option \<Rightarrow> port \<Rightarrow> goerr option \<times> writer" where
  "writeSocks5Response D writer errCode addr p =
     (let buffer = [socks5Version, errCode, 0x00] in
      case WriteAddressPort addr p of
        Inl err \<Rightarrow> (Some err, writer)
      | Inr ap \<Rightarrow> WriteAllBytes D writer (buffer @ ap))"

definition writeSocks4Response ::
  "deps \<Rightarrow> writer \<Rightarrow> byte \<Rightarrow> address \<Rightarrow> port \<Rightarrow> goerr option \<times> writer" where
  "writeSocks4Response D writer errCode addr p =
     (case IP addr of
        None \<Rightarrow> (Some RuntimePanic, writer)
      | Some ip \<Rightarrow> WriteAllBytes D writer ([0x00, errCode] @ PutUint16 p @ ip))"

text \<open>\<^verbatim>\<open>func (s *ServerSession) handshake4(cmd byte, reader io.Reader, writer io.Writer)\<close>.\<close>

definition handshake4 ::
  "deps \<Rightarrow> ServerSession \<Rightarrow> byte \<Rightarrow> reader \<Rightarrow> writer \<Rightarrow>
     (goerr + RequestHeader) \<times> reader \<times> writer" where
  "handshake4 D s cmd reader writer =
     (if AuthType (config s) = AuthType_PASSWORD then
        (case writeSocks4Response D writer socks4RequestRejected AnyIP 0 of
           (_, writer) \<Rightarrow>
             (Inl (Xray (errors_New [Str ''socks 4 is not allowed when auth is required.''])),
              reader, writer))
      else
        case ReadFullFrom reader 6 of
          (Inl err, reader) \<Rightarrow>
            (Inl (Xray (Base (errors_New [Str ''insufficient header'']) err)), reader, writer)
        | (Inr buffer, reader) \<Rightarrow>
            let p = PortFromBytes (BytesRange buffer 0 2);
                ip = BytesRange buffer 2 6
            in
            case ReadUntilNull D reader of
              (Inl err, reader) \<Rightarrow> (Inl err, reader, writer)
            | (Inr userid, reader) \<Rightarrow>
                (case (if ip ! 0 = 0x00 then
                         (case ReadUntilNull D reader of
                            (Inl err, reader) \<Rightarrow>
                              (Inl (Xray (Base (errors_New
                                 [Str ''failed to read domain for socks 4a'']) err)), reader)
                          | (Inr domain, reader) \<Rightarrow> (Inr (Some (ParseAddress D domain)), reader))
                       else (Inr (IPAddress ip), reader)) of
                   (Inl err, reader) \<Rightarrow> (Inl err, reader, writer)
                 | (Inr addr, reader) \<Rightarrow>
                     if cmd = cmdTCPConnect then
                       (let request = \<lparr> Version = socks4Version, Command = RequestCommandTCP,
                                         Address = addr, Port = p, User = None \<rparr> in
                        case writeSocks4Response D writer socks4RequestGranted AnyIP 0 of
                          (Some err, writer) \<Rightarrow> (Inl err, reader, writer)
                        | (None, writer) \<Rightarrow> (Inr request, reader, writer))
                     else
                       (case writeSocks4Response D writer socks4RequestRejected AnyIP 0 of
                          (_, writer) \<Rightarrow>
                            (Inl (Xray (errors_New [Str ''unsupported command: '', Byte cmd])),
                             reader, writer))))"

text \<open>
  \<^verbatim>\<open>func (s *ServerSession) auth5(nMethod byte, reader io.Reader, writer io.Writer)\<close>.
  \<open>expectedAuth\<close> is the method byte the function settles on before it looks at the
  candidates.
\<close>

definition expectedAuth :: "ServerConfig \<Rightarrow> byte" where
  "expectedAuth c =
     (if AuthType c = AuthType_PASSWORD then authPassword
      else if AuthType c = AuthType_KEYAUTH then authPassword
      else authNotRequired)"

definition auth5 ::
  "deps \<Rightarrow> ServerSession \<Rightarrow> byte \<Rightarrow> reader \<Rightarrow> writer \<Rightarrow> (goerr + string) \<times> reader \<times> writer" where
  "auth5 D s nMethod reader writer =
     (case ReadFullFrom reader (unat nMethod) of
        (Inl err, reader) \<Rightarrow>
          (Inl (Xray (Base (errors_New [Str ''failed to read auth methods'']) err)), reader, writer)
      | (Inr buffer, reader) \<Rightarrow>
          if \<not> hasAuthMethod (expectedAuth (config s)) (BytesRange buffer 0 (unat nMethod)) then
            (case writeSocks5AuthenticationResponse D writer socks5Version authNoMatchingMethod of
               (_, writer) \<Rightarrow>
                 (Inl (Xray (errors_New [Str ''no matching auth method''])), reader, writer))
          else
            case writeSocks5AuthenticationResponse D writer socks5Version
                   (expectedAuth (config s)) of
              (Some err, writer) \<Rightarrow>
                (Inl (Xray (Base (errors_New [Str ''failed to write auth response'']) err)),
                 reader, writer)
            | (None, writer) \<Rightarrow>
                if expectedAuth (config s) = authPassword then
                  (case ReadUsernamePassword reader of
                     (Inl err, reader) \<Rightarrow>
                       (Inl (Xray (Base (errors_New
                          [Str ''failed to read username and password for authentication'']) err)),
                        reader, writer)
                   | (Inr (username, password), reader) \<Rightarrow>
                       if AuthType (config s) = AuthType_PASSWORD
                          \<and> \<not> HasAccount (config s) username password then
                         (case writeSocks5AuthenticationResponse D writer 0x01 0xFF of
                            (_, writer) \<Rightarrow>
                              (Inl (Xray (errors_New [Str ''invalid username or password''])),
                               reader, writer))
                       else if AuthType (config s) \<noteq> AuthType_PASSWORD
                          \<and> AuthType (config s) = AuthType_KEYAUTH
                          \<and> \<not> ValidateKey (config s) password then
                         (case writeSocks5AuthenticationResponse D writer 0x01 0xFF of
                            (_, writer) \<Rightarrow>
                              (Inl (Xray (errors_New [Str ''invalid key''])), reader, writer))
                       else
                         (case writeSocks5AuthenticationResponse D writer 0x01 0x00 of
                            (Some err, writer) \<Rightarrow>
                              (Inl (Xray (Base (errors_New
                                 [Str ''failed to write auth response'']) err)), reader, writer)
                          | (None, writer) \<Rightarrow> (Inr username, reader, writer)))
                else (Inr [], reader, writer))"

text \<open>
  \<^verbatim>\<open>func (s *ServerSession) handshake5(nMethod byte, reader io.Reader, writer io.Writer)\<close>.
  The three rejecting branches of the \<^verbatim>\<open>switch cmd\<close> write the same reply and differ
  in their error only, so the switch is modelled as a value: \<open>Inl\<close> the error of a
  rejecting branch, \<open>Inr\<close> the request of an accepting one.
\<close>

definition handshake5 ::
  "deps \<Rightarrow> ServerSession \<Rightarrow> byte \<Rightarrow> reader \<Rightarrow> writer \<Rightarrow>
     (goerr + RequestHeader) \<times> reader \<times> writer" where
  "handshake5 D s nMethod reader writer =
     (case auth5 D s nMethod reader writer of
        (Inl err, reader, writer) \<Rightarrow> (Inl err, reader, writer)
      | (Inr username, reader, writer) \<Rightarrow>
          case ReadFullFrom reader 3 of
            (Inl err, reader) \<Rightarrow>
              (Inl (Xray (Base (errors_New [Str ''failed to read request'']) err)), reader, writer)
          | (Inr buffer, reader) \<Rightarrow>
              let cmd = buffer ! 1;
                  request = \<lparr> Version = 0, Command = RequestCommand_Zero, Address = None,
                              Port = 0, User = None \<rparr>;
                  request = (if username \<noteq> [] then
                               request\<lparr>User := Some \<lparr> Email = username, UserAccount = None \<rparr>\<rparr>
                             else request)
              in
              case (if cmd = cmdTCPConnect \<or> cmd = cmdTorResolve \<or> cmd = cmdTorResolvePTR then
                      Inr (request\<lparr>Command := RequestCommandTCP\<rparr>)
                    else if cmd = cmdUDPAssociate then
                      (if \<not> UdpEnabled (config s) then
                         Inl (Xray (errors_New [Str ''UDP is not enabled.'']))
                       else Inr (request\<lparr>Command := RequestCommandUDP\<rparr>))
                    else if cmd = cmdTCPBind then
                      Inl (Xray (errors_New [Str ''TCP bind is not supported.'']))
                    else Inl (Xray (errors_New [Str ''unknown command '', Byte cmd]))) of
                Inl err \<Rightarrow>
                  (case writeSocks5Response D writer statusCmdNotSupport (Some AnyIP) 0 of
                     (_, writer) \<Rightarrow> (Inl err, reader, writer))
              | Inr request \<Rightarrow>
                  let request = request\<lparr>Version := socks5Version\<rparr> in
                  case ReadAddressPort D reader of
                    (Inl err, reader) \<Rightarrow>
                      (Inl (Xray (Base (errors_New [Str ''failed to read address'']) err)),
                       reader, writer)
                  | (Inr (addr, p), reader) \<Rightarrow>
                      let request = request\<lparr>Address := Some addr, Port := p\<rparr>;
                          responseAddress =
                            (if Command request = RequestCommandUDP then
                               (if cfg_Address (config s) \<noteq> None then cfg_Address (config s)
                                else localAddress s)
                             else sess_address s);
                          responsePort = sess_port s
                      in
                      case writeSocks5Response D writer statusSuccess responseAddress responsePort of
                        (Some err, writer) \<Rightarrow> (Inl err, reader, writer)
                      | (None, writer) \<Rightarrow> (Inr request, reader, writer))"

text \<open>\<^verbatim>\<open>func (s *ServerSession) Handshake(reader io.Reader, writer io.Writer)\<close>.\<close>

definition Handshake ::
  "deps \<Rightarrow> ServerSession \<Rightarrow> reader \<Rightarrow> writer \<Rightarrow> (goerr + RequestHeader) \<times> reader \<times> writer" where
  "Handshake D s reader writer =
     (case ReadFullFrom reader 2 of
        (Inl err, reader) \<Rightarrow>
          (Inl (Xray (Base (errors_New [Str ''insufficient header'']) err)), reader, writer)
      | (Inr buffer, reader) \<Rightarrow>
          let version = buffer ! 0; cmd = buffer ! 1 in
          if version = socks4Version then handshake4 D s cmd reader writer
          else if version = socks5Version then handshake5 D s cmd reader writer
          else (Inl (Xray (errors_New [Str ''unknown Socks version: '', Byte version])),
                reader, writer))"

section \<open>The SOCKS handshake, client role\<close>

text \<open>
  \<^verbatim>\<open>func ClientHandshake(request *protocol.RequestHeader, reader io.Reader, writer io.Writer)\<close>.
  The result is \<open>Inr None\<close> where the source returns \<^verbatim>\<open>nil, nil\<close>. The block
  \<^verbatim>\<open>if authByte == authPassword { ... }\<close> is modelled as a value: the error it
  returns with, if any, and the reader and writer after it. The type assertion
  \<^verbatim>\<open>request.User.Account.(*Account)\<close> panics when the user has no such account.
\<close>

definition ClientHandshake ::
  "deps \<Rightarrow> RequestHeader \<Rightarrow> reader \<Rightarrow> writer \<Rightarrow>
     (goerr + RequestHeader option) \<times> reader \<times> writer" where
  "ClientHandshake D request reader writer =
     (let authByte = (if User request \<noteq> None then authPassword else authNotRequired) in
      case WriteAllBytes D writer [socks5Version, 0x01, authByte] of
        (Some err, writer) \<Rightarrow> (Inl err, reader, writer)
      | (None, writer) \<Rightarrow>
      case ReadFullFrom reader 2 of
        (Inl err, reader) \<Rightarrow> (Inl err, reader, writer)
      | (Inr b, reader) \<Rightarrow>
      if b ! 0 \<noteq> socks5Version then
        (Inl (Xray (AtWarning (errors_New [Str ''unexpected server version: '', Byte (b ! 0)]))),
         reader, writer)
      else if b ! 1 \<noteq> authByte then
        (Inl (Xray (AtWarning (errors_New [Str ''auth method not supported.'']))), reader, writer)
      else
      case (if authByte = authPassword then
              (case User request of
                 None \<Rightarrow> (Some RuntimePanic, reader, writer)
               | Some user \<Rightarrow>
                   (case UserAccount user of
                      None \<Rightarrow> (Some RuntimePanic, reader, writer)
                    | Some account \<Rightarrow>
                        (case WriteAllBytes D writer
                                ([0x01, of_nat (length (Username account))]
                                 @ bytes_of_string (Username account)
                                 @ [of_nat (length (Password account))]
                                 @ bytes_of_string (Password account)) of
                           (Some err, writer) \<Rightarrow> (Some err, reader, writer)
                         | (None, writer) \<Rightarrow>
                             (case ReadFullFrom reader 2 of
                                (Inl err, reader) \<Rightarrow> (Some err, reader, writer)
                              | (Inr b, reader) \<Rightarrow>
                                  if b ! 1 \<noteq> 0x00 then
                                    (Some (Xray (errors_New
                                       [Str ''server rejects account: '', Byte (b ! 1)])),
                                     reader, writer)
                                  else (None, reader, writer)))))
            else (None, reader, writer)) of
        (Some err, reader, writer) \<Rightarrow> (Inl err, reader, writer)
      | (None, reader, writer) \<Rightarrow>
      let command = (if Command request = RequestCommandUDP then cmdUDPAssociate
                     else cmdTCPConnect);
          b = [socks5Version, command, 0x00]
      in
      case (if Command request = RequestCommandUDP then Inr (b @ [1, 0, 0, 0, 0, 0, 0])
            else (case WriteAddressPort (Address request) (Port request) of
                    Inl err \<Rightarrow> Inl err
                  | Inr ap \<Rightarrow> Inr (b @ ap))) of
        Inl err \<Rightarrow> (Inl err, reader, writer)
      | Inr b \<Rightarrow>
      case WriteAllBytes D writer b of
        (Some err, writer) \<Rightarrow> (Inl err, reader, writer)
      | (None, writer) \<Rightarrow>
      case ReadFullFrom reader 3 of
        (Inl err, reader) \<Rightarrow> (Inl err, reader, writer)
      | (Inr b, reader) \<Rightarrow>
      let resp = b ! 1 in
      if resp \<noteq> 0x00 then
        (Inl (Xray (errors_New [Str ''server rejects request: '', Byte resp])), reader, writer)
      else
      case ReadAddressPort D reader of
        (Inl err, reader) \<Rightarrow> (Inl err, reader, writer)
      | (Inr (addr, p), reader) \<Rightarrow>
          if Command request = RequestCommandUDP then
            (Inr (Some \<lparr> Version = socks5Version, Command = RequestCommandUDP,
                          Address = Some addr, Port = p, User = None \<rparr>), reader, writer)
          else (Inr None, reader, writer))"

section \<open>The outbound handler\<close>

text \<open>
  The records of package \<^verbatim>\<open>mux\<close> and of the sender settings, with the fields that
  \<^verbatim>\<open>NewHandler\<close> and \<^verbatim>\<open>Dispatch\<close> read or set. A pointer that may be
  \<^verbatim>\<open>nil\<close> is an \<open>option\<close>. The proxy handler is known by a number; the dialer of a
  worker factory is the handler under construction, known by its tag.
\<close>

record ClientStrategy =
  MaxConcurrency :: uint32
  MaxConnection :: uint32

record DialingWorkerFactory =
  Proxy :: nat
  Dialer :: string
  Strategy :: ClientStrategy

record IncrementalWorkerPicker =
  Factory :: DialingWorkerFactory

record ClientManager =
  Enabled :: bool
  Picker :: "IncrementalWorkerPicker option"

record MultiplexingConfig =
  mux_Enabled :: bool
  Concurrency :: int32
  XudpConcurrency :: int32
  XudpProxyUDP443 :: string

record SenderConfig =
  MultiplexSettings :: "MultiplexingConfig option"

record Handler =
  tag :: string
  senderSettings :: "SenderConfig option"
  proxy :: "nat option"
  mux :: "ClientManager option"
  xudp :: "ClientManager option"
  udp443 :: string

text \<open>
  What \<^verbatim>\<open>NewHandler\<close> gets from its collaborators, none of them among the sources:
  the instance of \<^verbatim>\<open>config.SenderSettings\<close> (\<open>None\<close> when the field is \<^verbatim>\<open>nil\<close>;
  an instance is a \<^verbatim>\<open>SenderConfig\<close> or some other message), the error of
  \<^verbatim>\<open>internet.ToMemoryStreamConfig\<close> if any, the error of
  \<^verbatim>\<open>config.ProxySettings.GetInstance\<close> if any, and the object that
  \<^verbatim>\<open>common.CreateObject\<close> returns (\<open>Inr None\<close> when it is not a
  \<^verbatim>\<open>proxy.Outbound\<close>).
\<close>

datatype sender_instance = IsSenderConfig SenderConfig | OtherMessage

record OutboundHandlerConfig =
  Tag :: string
  SenderSettings_instance :: "(goerr + sender_instance) option"
  ToMemoryStreamConfig_error :: "goerr option"
  ProxySettings_error :: "goerr option"
  CreateObject_result :: "goerr + nat option"

text \<open>
  Lines 120 to 166 of \<^verbatim>\<open>NewHandler\<close>: the multiplexing pools. The source's
  \<^verbatim>\<open>config\<close> (here \<open>config'\<close>) points into the sender settings, so the
  assignment \<^verbatim>\<open>config.Concurrency = 8\<close> shows there.
\<close>

definition NewHandler_multiplex :: "nat \<Rightarrow> Handler \<Rightarrow> Handler" where
  "NewHandler_multiplex proxyHandler h =
     (case senderSettings h of
        None \<Rightarrow> h
      | Some ss \<Rightarrow>
          (case MultiplexSettings ss of
             None \<Rightarrow> h
           | Some config' \<Rightarrow>
               if mux_Enabled config' then
                 let h = (if sint (Concurrency config') < 0
                          then h\<lparr>mux := Some \<lparr> Enabled = False, Picker = None \<rparr>\<rparr> else h);
                     config' = (if Concurrency config' = 0
                               then config'\<lparr>Concurrency := 8\<rparr> else config');
                     h = (if sint (Concurrency config') > 0
                          then h\<lparr>mux := Some \<lparr> Enabled = True, Picker = Some \<lparr> Factory =
                                 \<lparr> Proxy = proxyHandler, Dialer = tag h,
                                   Strategy = \<lparr> MaxConcurrency = Concurrency config',
                                                MaxConnection = 128 \<rparr> \<rparr> \<rparr> \<rparr>\<rparr>
                          else h);
                     h = (if sint (XudpConcurrency config') < 0
                          then h\<lparr>xudp := Some \<lparr> Enabled = False, Picker = None \<rparr>\<rparr> else h);
                     h = (if XudpConcurrency config' = 0 then h\<lparr>xudp := None\<rparr> else h);
                     h = (if sint (XudpConcurrency config') > 0
                          then h\<lparr>xudp := Some \<lparr> Enabled = True, Picker = Some \<lparr> Factory =
                                 \<lparr> Proxy = proxyHandler, Dialer = tag h,
                                   Strategy = \<lparr> MaxConcurrency = XudpConcurrency config',
                                                MaxConnection = 128 \<rparr> \<rparr> \<rparr> \<rparr>\<rparr>
                          else h);
                     h = h\<lparr>udp443 := XudpProxyUDP443 config'\<rparr>
                 in h\<lparr>senderSettings := Some (ss\<lparr>MultiplexSettings := Some config'\<rparr>)\<rparr>
               else h))"

text \<open>
  \<^verbatim>\<open>func NewHandler(ctx context.Context, config *core.OutboundHandlerConfig) (outbound.Handler, error)\<close>.
  The counters and the outbound manager play no part in what follows and are left out.
\<close>

definition NewHandler :: "OutboundHandlerConfig \<Rightarrow> goerr + Handler" where
  "NewHandler conf =
     (let h = \<lparr> tag = Tag conf, senderSettings = None, proxy = None,
                 mux = None, xudp = None, udp443 = [] \<rparr> in
      case (case SenderSettings_instance conf of
              None \<Rightarrow> Inr h
            | Some (Inl err) \<Rightarrow> Inl err
            | Some (Inr (IsSenderConfig s)) \<Rightarrow>
                (case ToMemoryStreamConfig_error conf of
                   Some err \<Rightarrow>
                     Inl (Xray (AtWarning (Base (errors_New
                            [Str ''failed to parse stream settings'']) err)))
                 | None \<Rightarrow> Inr (h\<lparr>senderSettings := Some s\<rparr>))
            | Some (Inr OtherMessage) \<Rightarrow>
                Inl (Xray (errors_New [Str ''settings is not SenderConfig'']))) of
        Inl err \<Rightarrow> Inl err
      | Inr h \<Rightarrow>
          (case ProxySettings_error conf of
             Some err \<Rightarrow> Inl err
           | None \<Rightarrow>
               (case CreateObject_result conf of
                  Inl err \<Rightarrow> Inl err
                | Inr None \<Rightarrow> Inl (Xray (errors_New [Str ''not an outbound handler'']))
                | Inr (Some proxyHandler) \<Rightarrow>
                    Inr ((NewHandler_multiplex proxyHandler h)\<lparr>proxy := Some proxyHandler\<rparr>))))"

text \<open>
  The flow a \<^verbatim>\<open>Dispatch\<close> serves: destinations, the outbound records of the
  session context, and the link. A link end is a pipe end, known by a number, or an
  endpoint-override adapter around a link end.
\<close>

datatype Network = Network_Unknown | Network_TCP | Network_UDP

record Destination =
  dest_Address :: "address option"
  dest_Port :: port
  dest_Network :: Network

record Outbound =
  Target :: Destination
  OriginalTarget :: Destination

datatype buf_reader =
    PipeReader nat
  | EndpointOverrideReader buf_reader "address option" "address option"

datatype buf_writer =
    PipeWriter nat
  | EndpointOverrideWriter buf_writer "address option" "address option"

record Link =
  Reader :: buf_reader
  Writer :: buf_writer

text \<open>
  What \<^verbatim>\<open>Dispatch\<close> does to its collaborators, in order, and what they return
  to it: the result of the xudp pool's and of the mux pool's \<^verbatim>\<open>Dispatch\<close>, and of
  the proxy's \<^verbatim>\<open>Process\<close>, for the link they are given.
\<close>

datatype event =
    SubmitOutboundErrorToOriginator goerr
  | LogInfo goerr
  | Interrupt_Writer buf_writer
  | Close_Writer buf_writer
  | Interrupt_Reader buf_reader
  | Xudp_Dispatch Link
  | Mux_Dispatch Link
  | Proxy_Process Link

record collaborators =
  xudp_Dispatch :: "Link \<Rightarrow> goerr option"
  mux_Dispatch :: "Link \<Rightarrow> goerr option"
  proxy_Process :: "Link \<Rightarrow> goerr option"

text \<open>
  Modelled from the spec: \<^verbatim>\<open>common.Interrupt\<close> and \<^verbatim>\<open>common.Close\<close> are not
  among the sources. They interrupt or close an object that can be interrupted or closed,
  as a pipe end can. An endpoint-override adapter only passes reads and writes on to the
  link end it wraps, so on an adapter the two calls do nothing: the wrapped pipe end is
  not reached.
\<close>

fun common_Interrupt_Writer :: "buf_writer \<Rightarrow> event list" where
  "common_Interrupt_Writer (PipeWriter n) = [Interrupt_Writer (PipeWriter n)]"
| "common_Interrupt_Writer (EndpointOverrideWriter w dest originalDest) = []"

fun common_Close_Writer :: "buf_writer \<Rightarrow> event list" where
  "common_Close_Writer (PipeWriter n) = [Close_Writer (PipeWriter n)]"
| "common_Close_Writer (EndpointOverrideWriter w dest originalDest) = []"

fun common_Interrupt_Reader :: "buf_reader \<Rightarrow> event list" where
  "common_Interrupt_Reader (PipeReader n) = [Interrupt_Reader (PipeReader n)]"
| "common_Interrupt_Reader (EndpointOverrideReader r dest originalDest) = []"

text \<open>The closure \<^verbatim>\<open>test := func(err error) { ... }\<close> of \<^verbatim>\<open>Dispatch\<close>.\<close>

definition Dispatch_test :: "Link \<Rightarrow> goerr option \<Rightarrow> event list" where
  "Dispatch_test link err =
     (case err of
        None \<Rightarrow> []
      | Some err \<Rightarrow>
          let err = Xray (Base (errors_New [Str ''failed to process mux outbound traffic'']) err)
          in [SubmitOutboundErrorToOriginator err, LogInfo err]
             @ common_Interrupt_Writer (Writer link))"

text \<open>The code of \<^verbatim>\<open>Dispatch\<close> from the label \<^verbatim>\<open>out:\<close> on, the direct path.\<close>

definition Dispatch_out :: "collaborators \<Rightarrow> Link \<Rightarrow> event list" where
  "Dispatch_out E link =
     (let err = proxy_Process E link;
          err = (case err of
                   None \<Rightarrow> None
                 | Some e \<Rightarrow>
                     if errors_Is e io_EOF \<or> errors_Is e io_ErrClosedPipe
                        \<or> errors_Is e context_Canceled
                     then None else Some e)
      in [Proxy_Process link]
         @ (case err of
              Some e \<Rightarrow>
                let err = Xray (Base (errors_New [Str ''failed to process outbound traffic'']) e)
                in [SubmitOutboundErrorToOriginator err, LogInfo err]
                   @ common_Interrupt_Writer (Writer link)
            | None \<Rightarrow> common_Close_Writer (Writer link))
         @ common_Interrupt_Reader (Reader link))"

text \<open>The first statement of \<^verbatim>\<open>Dispatch\<close>: the endpoint-override adapters.\<close>

definition Dispatch_override :: "Outbound \<Rightarrow> Link \<Rightarrow> Link" where
  "Dispatch_override ob link =
     (if dest_Network (Target ob) = Network_UDP
         \<and> dest_Address (OriginalTarget ob) \<noteq> None
         \<and> dest_Address (OriginalTarget ob) \<noteq> dest_Address (Target ob)
      then \<lparr> Reader = EndpointOverrideReader (Reader link)
                         (dest_Address (Target ob)) (dest_Address (OriginalTarget ob)),
             Writer = EndpointOverrideWriter (Writer link)
                         (dest_Address (Target ob)) (dest_Address (OriginalTarget ob)) \<rparr>
      else link)"

text \<open>
  \<^verbatim>\<open>func (h *Handler) Dispatch(ctx context.Context, link *transport.Link)\<close>. The result
  is the list of events and the link as the function leaves it;
  \<^verbatim>\<open>outbounds[len(outbounds)-1]\<close> panics when the context has no outbound record.
\<close>

definition Dispatch ::
  "collaborators \<Rightarrow> Handler \<Rightarrow> Outbound list \<Rightarrow> Link \<Rightarrow> goerr + event list \<times> Link" where
  "Dispatch E h outbounds link =
     (if outbounds = [] then Inl RuntimePanic
      else
        let ob = last outbounds;
            link = Dispatch_override ob link
        in Inr
          ((case mux h of
              Some m \<Rightarrow>
                if dest_Network (Target ob) = Network_UDP \<and> dest_Port (Target ob) = 443
                   \<and> udp443 h = ''reject'' then
                  Dispatch_test link
                    (Some (Xray (AtInfo (errors_New [Str ''XUDP rejected UDP/443 traffic'']))))
                else if dest_Network (Target ob) = Network_UDP \<and> dest_Port (Target ob) = 443
                   \<and> udp443 h = ''skip'' then
                  Dispatch_out E link
                else
                  (case (if dest_Network (Target ob) = Network_UDP then xudp h else None) of
                     Some x \<Rightarrow>
                       if \<not> Enabled x then Dispatch_out E link
                       else [Xudp_Dispatch link] @ Dispatch_test link (xudp_Dispatch E link)
                   | None \<Rightarrow>
                       if Enabled m then
                         [Mux_Dispatch link] @ Dispatch_test link (mux_Dispatch E link)
                       else Dispatch_out E link)
            | None \<Rightarrow> Dispatch_out E link),
           link))"

section \<open>Example inputs\<close>

text \<open>
  Concrete collaborators and sessions on which the theorems below are exercised: a writer
  that never fails with buffers of 8192 bytes, a server that asks for a key, one that
  asks for a password, a client request without credentials and one with an account.
\<close>

definition D_ok :: deps where
  "D_ok = \<lparr> buf_Size = 8192, write_result = (\<lambda>w bs. None), ParseAddress = DomainAddress \<rparr>"

definition s_key :: ServerSession where
  "s_key = \<lparr> config = \<lparr> AuthType = AuthType_KEYAUTH, Accounts = None,
                          Keys = Some [''k'' \<mapsto> 1], cfg_Address = None, UdpEnabled = False \<rparr>,
             sess_address = Some (IPv4Address [127, 0, 0, 1]), sess_port = 1080,
             localAddress = Some (IPv4Address [127, 0, 0, 1]) \<rparr>"

definition s_password :: ServerSession where
  "s_password = \<lparr> config = \<lparr> AuthType = AuthType_PASSWORD, Accounts = Some [''u'' \<mapsto> ''pw''],
                          Keys = None, cfg_Address = None, UdpEnabled = False \<rparr>,
             sess_address = Some (IPv4Address [127, 0, 0, 1]), sess_port = 1080,
             localAddress = Some (IPv4Address [127, 0, 0, 1]) \<rparr>"

definition req_noauth :: RequestHeader where
  "req_noauth = \<lparr> Version = 5, Command = RequestCommandTCP,
                   Address = Some (DomainAddress ''a.io''), Port = 443, User = None \<rparr>"

definition req_auth :: RequestHeader where
  "req_auth = \<lparr> Version = 5, Command = RequestCommandTCP,
                 Address = Some (DomainAddress ''a.io''), Port = 443,
                 User = Some \<lparr> Email = ''u'',
                   UserAccount = Some \<lparr> Username = ''u'', Password = ''pw'' \<rparr> \<rparr> \<rparr>"

text \<open>
  For the handler: a construction request with multiplexing enabled and both
  concurrencies 0, one with a negative concurrency and an xudp concurrency of 16; a UDP
  flow to port 443 and a TCP flow; a link; collaborators whose pools succeed and whose
  proxy fails with a connection error, and ones whose proxy ends with a wrapped
  \<^verbatim>\<open>io.EOF\<close>; handlers with a mux pool and a given UDP/443 policy, and one
  without pools.
\<close>

definition conf_default :: OutboundHandlerConfig where
  "conf_default = \<lparr> Tag = ''out'',
     SenderSettings_instance = Some (Inr (IsSenderConfig \<lparr> MultiplexSettings =
        Some \<lparr> mux_Enabled = True, Concurrency = 0, XudpConcurrency = 0,
               XudpProxyUDP443 = ''reject'' \<rparr> \<rparr>)),
     ToMemoryStreamConfig_error = None, ProxySettings_error = None,
     CreateObject_result = Inr (Some 7) \<rparr>"

definition conf_negative :: OutboundHandlerConfig where
  "conf_negative = \<lparr> Tag = ''out'',
     SenderSettings_instance = Some (Inr (IsSenderConfig \<lparr> MultiplexSettings =
        Some \<lparr> mux_Enabled = True, Concurrency = - 1, XudpConcurrency = 16,
               XudpProxyUDP443 = ''skip'' \<rparr> \<rparr>)),
     ToMemoryStreamConfig_error = None, ProxySettings_error = None,
     CreateObject_result = Inr (Some 7) \<rparr>"

definition ob_udp443 :: Outbound where
  "ob_udp443 = \<lparr> Target = \<lparr> dest_Address = Some (IPv4Address [8, 8, 8, 8]), dest_Port = 443,
                              dest_Network = Network_UDP \<rparr>,
                  OriginalTarget = \<lparr> dest_Address = None, dest_Port = 0,
                                      dest_Network = Network_Unknown \<rparr> \<rparr>"

definition ob_tcp :: Outbound where
  "ob_tcp = \<lparr> Target = \<lparr> dest_Address = Some (DomainAddress ''a.io''), dest_Port = 80,
                           dest_Network = Network_TCP \<rparr>,
               OriginalTarget = \<lparr> dest_Address = None, dest_Port = 0,
                                   dest_Network = Network_Unknown \<rparr> \<rparr>"

definition link_ex :: Link where
  "link_ex = \<lparr> Reader = PipeReader 0, Writer = PipeWriter 1 \<rparr>"

definition E_fail :: collaborators where
  "E_fail = \<lparr> xudp_Dispatch = (\<lambda>l. None), mux_Dispatch = (\<lambda>l. None),
               proxy_Process = (\<lambda>l. Some (OtherError ''connection reset'')) \<rparr>"

definition E_eof :: collaborators where
  "E_eof = \<lparr> xudp_Dispatch = (\<lambda>l. None), mux_Dispatch = (\<lambda>l. None),
              proxy_Process = (\<lambda>l. Some (Xray (Base (errors_New [Str ''read failed'']) io_EOF))) \<rparr>"

definition pool_ex :: ClientManager where
  "pool_ex = \<lparr> Enabled = True, Picker = Some \<lparr> Factory = \<lparr> Proxy = 7, Dialer = ''out'',
       Strategy = \<lparr> MaxConcurrency = 8, MaxConnection = 128 \<rparr> \<rparr> \<rparr> \<rparr>"

definition h_policy :: "string \<Rightarrow> Handler" where
  "h_policy policy = \<lparr> tag = ''out'', senderSettings = None, proxy = Some 7,
                        mux = Some pool_ex, xudp = None, udp443 = policy \<rparr>"

definition h_direct :: Handler where
  "h_direct = \<lparr> tag = ''out'', senderSettings = None, proxy = Some 7,
                 mux = None, xudp = None, udp443 = [] \<rparr>"

text \<open>
  A UDP flow to port 443 whose target was rewritten from a domain name to an IP address,
  and the link as \<^verbatim>\<open>Dispatch\<close> wraps it for that flow.
\<close>

definition ob_udp443_nat :: Outbound where
  "ob_udp443_nat = \<lparr> Target = \<lparr> dest_Address = Some (IPv4Address [8, 8, 8, 8]),
                                  dest_Port = 443, dest_Network = Network_UDP \<rparr>,
                      OriginalTarget = \<lparr> dest_Address = Some (DomainAddress ''dns.google''),
                                          dest_Port = 443, dest_Network = Network_UDP \<rparr> \<rparr>"

definition link_nat :: Link where
  "link_nat = \<lparr> Reader = EndpointOverrideReader (PipeReader 0)
                             (Some (IPv4Address [8, 8, 8, 8])) (Some (DomainAddress ''dns.google'')),
                 Writer = EndpointOverrideWriter (PipeWriter 1)
                             (Some (IPv4Address [8, 8, 8, 8])) (Some (DomainAddress ''dns.google'')) \<rparr>"

section \<open>Theorems\<close>

subsection \<open>Strings and bytes\<close>

lemma unat_of_char: "unat (of_char c :: byte) = of_char c"
proof -
  have "(of_char c :: byte) = of_nat (of_char c)"
    by (simp only: of_nat_of_char)
  then have "unat (of_char c :: byte) = (of_char c :: nat) mod 2 ^ 8"
    by (simp add: unat_of_nat)
  then show ?thesis by simp
qed

lemma of_char_char_of_unat: "(of_char (char_of (unat b)) :: byte) = b"
proof -
  have "(of_char (char_of (unat b)) :: byte) = of_nat (of_char (char_of (unat b)))"
    by (simp only: of_nat_of_char)
  also have "\<dots> = of_nat (unat b mod 256)"
    by simp
  also have "\<dots> = b"
    using unsigned_less [of b, where 'a = nat] by simp
  finally show ?thesis .
qed

lemma string_of_bytes_of_string [simp]: "string_of_bytes (bytes_of_string s) = s"
  unfolding string_of_bytes_def bytes_of_string_def
  by (simp add: comp_def unat_of_char)

lemma bytes_of_string_of_bytes [simp]: "bytes_of_string (string_of_bytes bs) = bs"
  unfolding string_of_bytes_def bytes_of_string_def
  by (simp add: comp_def of_char_char_of_unat)

lemma length_bytes_of_string [simp]: "length (bytes_of_string s) = length s"
  by (simp add: bytes_of_string_def)

lemma length_string_of_bytes [simp]: "length (string_of_bytes bs) = length bs"
  by (simp add: string_of_bytes_def)

subsection \<open>Key validation and the configuration builder\<close>

lemma Build_keys_lookup:
  "Build_keys ks m k = (if k \<in> set ks then Some ValidKey else m k)"
  by (induction ks arbitrary: m) auto

lemma ValidateKey_iff:
  "ValidateKey c key \<longleftrightarrow> (\<exists>keys. Keys c = Some keys \<and> keys key = Some 1)"
  by (auto simp: ValidateKey_def ValidKey_def split: option.splits)

lemma http_ValidateKey_iff:
  "http_ValidateKey c key \<longleftrightarrow> (\<exists>keys. http_Keys c = Some keys \<and> keys key = Some 1)"
  by (auto simp: http_ValidateKey_def ValidKey_def split: option.splits)

lemma Build_http_Keys:
  assumes "Build c = Inr cfg"
  shows "http_Keys cfg =
     (if conf_AuthMethod c = ''keyauth''
      then map_option (\<lambda>ks. Build_keys ks Map.empty) (conf_Keys c)
      else None)"
  using assms
  by (auto simp: Build_def Let_def HTTPAuthMethodNoAuth_def HTTPAuthMethodUserPass_def
      HTTPAuthMethodKeyAuth_def split: if_splits sum.splits option.splits)

text \<open>
  Claim C10. \<^verbatim>\<open>ValidateKey\<close> (of package socks and of package http alike) returns true
  exactly when the \<^verbatim>\<open>Keys\<close> map is not \<^verbatim>\<open>nil\<close>, holds the key and maps it to 1;
  so a key mapped to any other value is rejected. Every key of the \<^verbatim>\<open>Keys\<close> map of
  a configuration that \<^verbatim>\<open>Build\<close> returns validates, and when the JSON asks for
  \<^verbatim>\<open>keyauth\<close> those are all the keys it lists.
\<close>

theorem C10_ValidateKey_iff_mapped_to_one:
  "(ValidateKey sc key \<longleftrightarrow> (\<exists>keys. Keys sc = Some keys \<and> keys key = Some 1)) \<and>
   (http_ValidateKey hc key \<longleftrightarrow> (\<exists>keys. http_Keys hc = Some keys \<and> keys key = Some 1)) \<and>
   (Build c = Inr cfg \<longrightarrow>
      (\<forall>keys k. http_Keys cfg = Some keys \<longrightarrow> k \<in> dom keys \<longrightarrow> http_ValidateKey cfg k) \<and>
      (\<forall>ks k. conf_AuthMethod c = ''keyauth'' \<longrightarrow> conf_Keys c = Some ks \<longrightarrow> k \<in> set ks \<longrightarrow>
          http_ValidateKey cfg k))"
proof (intro conjI impI allI)
  show "ValidateKey sc key \<longleftrightarrow> (\<exists>keys. Keys sc = Some keys \<and> keys key = Some 1)"
    by (rule ValidateKey_iff)
  show "http_ValidateKey hc key \<longleftrightarrow> (\<exists>keys. http_Keys hc = Some keys \<and> keys key = Some 1)"
    by (rule http_ValidateKey_iff)
next
  fix keys k
  assume "Build c = Inr cfg" "http_Keys cfg = Some keys" "k \<in> dom keys"
  then show "http_ValidateKey cfg k"
    by (auto simp: Build_http_Keys http_ValidateKey_def Build_keys_lookup
        split: if_splits option.splits)
next
  fix ks k
  assume "Build c = Inr cfg" "conf_AuthMethod c = ''keyauth''" "conf_Keys c = Some ks" "k \<in> set ks"
  then show "http_ValidateKey cfg k"
    by (auto simp: Build_http_Keys http_ValidateKey_def Build_keys_lookup
        split: if_splits option.splits)
qed

theorem C10_witness:
  "(\<exists>cfg. Build \<lparr> conf_Accounts = [], conf_Transparent = False, conf_UserLevel = 0,
                   conf_AuthMethod = ''keyauth'', conf_Keys = Some [''k1'', ''k2''] \<rparr> = Inr cfg \<and>
          http_ValidateKey cfg ''k2'') \<and>
   \<not> ValidateKey \<lparr> AuthType = AuthType_KEYAUTH, Accounts = None,
                    Keys = Some [''k1'' \<mapsto> 2], cfg_Address = None, UdpEnabled = False \<rparr> ''k1'' \<and>
   \<not> http_ValidateKey \<lparr> http_Accounts = None, AllowTransparent = False, UserLevel = 0,
                    http_AuthType = AuthType_KEYAUTH, http_Keys = None \<rparr> ''k1''"
proof -
  define c where "c = \<lparr> conf_Accounts = [], conf_Transparent = False, conf_UserLevel = 0,
                        conf_AuthMethod = ''keyauth'', conf_Keys = Some [''k1'', ''k2''] \<rparr>"
  define sc where "sc = \<lparr> AuthType = AuthType_KEYAUTH, Accounts = None,
                    Keys = Some [''k1'' \<mapsto> (2 :: int32)], cfg_Address = None, UdpEnabled = False \<rparr>"
  define hc where "hc = \<lparr> http_Accounts = None, AllowTransparent = False, UserLevel = 0,
                    http_AuthType = AuthType_KEYAUTH, http_Keys = None \<rparr>"
  obtain cfg where b: "Build c = Inr cfg"
    by (simp add: Build_def c_def HTTPAuthMethodNoAuth_def HTTPAuthMethodUserPass_def
        HTTPAuthMethodKeyAuth_def)
  have "http_ValidateKey cfg ''k2''"
    using C10_ValidateKey_iff_mapped_to_one [where c = c and cfg = cfg, THEN conjunct2, THEN conjunct2] b
    by (simp add: c_def)
  moreover have "\<not> ValidateKey sc ''k1''"
    using C10_ValidateKey_iff_mapped_to_one [where sc = sc and key = "''k1''", THEN conjunct1]
    by (simp add: sc_def)
  moreover have "\<not> http_ValidateKey hc ''k1''"
    using C10_ValidateKey_iff_mapped_to_one [where hc = hc and key = "''k1''", THEN conjunct2, THEN conjunct1]
    by (simp add: hc_def)
  ultimately show ?thesis
    using b unfolding c_def sc_def hc_def by blast
qed

subsection \<open>The UDP relay codec\<close>

lemma PortFromBytes_PutUint16: "PortFromBytes (PutUint16 p @ rest) = p"
  unfolding PutUint16_def
  apply simp
  apply (rule bit_word_eqI)
  apply (auto simp: bit_simps)
  done

lemma ReadFullFrom_append:
  "length xs = n \<Longrightarrow> ReadFullFrom (xs @ rest) n = (Inr xs, rest)"
  by (simp add: ReadFullFrom_def)

lemma ReadFullFrom_Cons:
  "ReadFullFrom (x # rest) (Suc 0) = (Inr [x], rest)"
  by (simp add: ReadFullFrom_def)

lemma unat_length_byte: "n \<le> 255 \<Longrightarrow> unat (of_nat n :: byte) = n"
  by (simp add: unat_of_nat)

lemma ReadFullFrom_port:
  "ReadFullFrom (PutUint16 p @ rest) 2 = (Inr (PutUint16 p), rest)"
  by (rule ReadFullFrom_append) (simp add: PutUint16_def)

lemma codec_address_valid: "codec_address D a \<Longrightarrow> valid_address a"
  by (cases "(D, a)" rule: codec_address.cases) simp_all

lemma length_PutUint16: "length (PutUint16 p) = 2"
  by (simp add: PutUint16_def)

lemma ReadAddressPort_after_address:
  assumes "readAddress D (bs @ PutUint16 p @ rest) = (Inr a', PutUint16 p @ rest)"
  shows "ReadAddressPort D ((bs @ PutUint16 p) @ rest) = (Inr (a', p), rest)"
  using assms PortFromBytes_PutUint16 [of p "[]"]
  by (simp add: ReadAddressPort_def ReadFullFrom_port)

lemma ReadAddressPort_WriteAddressPort:
  assumes "codec_address D a"
  shows "\<exists>ap a'. WriteAddressPort a p = Inr ap \<and> a = Some a' \<and>
           ReadAddressPort D (ap @ rest) = (Inr (a', p), rest) \<and>
           3 + length ap = udp_header_length a"
proof (cases a)
  case None
  with assms show ?thesis by simp
next
  case (Some a')
  note v = codec_address_valid [OF assms]
  show ?thesis
  proof (cases a')
    case (IPv4Address ip)
    with Some assms have len: "length ip = 4" by simp
    have w: "WriteAddressPort a p = Inr (([0x01] @ ip) @ PutUint16 p)"
      using v by (simp add: WriteAddressPort_def Some IPv4Address)
    have "readAddress D (([0x01] @ ip) @ PutUint16 p @ rest) =
        (Inr (IPv4Address ip), PutUint16 p @ rest)"
      using len by (simp add: readAddress_def ReadFullFrom_Cons ReadFullFrom_append)
    from ReadAddressPort_after_address [OF this] w len show ?thesis
      by (simp add: Some IPv4Address length_PutUint16)
  next
    case (IPv6Address ip)
    with Some assms have len: "length ip = 16" by simp
    have w: "WriteAddressPort a p = Inr (([0x04] @ ip) @ PutUint16 p)"
      using v by (simp add: WriteAddressPort_def Some IPv6Address)
    have "readAddress D (([0x04] @ ip) @ PutUint16 p @ rest) =
        (Inr (IPv6Address ip), PutUint16 p @ rest)"
      using len by (simp add: readAddress_def ReadFullFrom_Cons ReadFullFrom_append)
    from ReadAddressPort_after_address [OF this] w len show ?thesis
      by (simp add: Some IPv6Address length_PutUint16)
  next
    case (DomainAddress d)
    with Some assms have len: "length d \<le> 255" and ne: "d \<noteq> []" and ok: "isValidDomain d"
      and ip: "\<not> (maybeIPPrefix (hd d) \<and> IsIP (ParseAddress D d))"
      by simp_all
    have w: "WriteAddressPort a p =
        Inr (([0x03, of_nat (length d)] @ bytes_of_string d) @ PutUint16 p)"
      using v by (simp add: WriteAddressPort_def Some DomainAddress)
    have "readAddress D (([0x03, of_nat (length d)] @ bytes_of_string d) @ PutUint16 p @ rest) =
        (Inr (DomainAddress d), PutUint16 p @ rest)"
      using len ne ok ip
      by (auto simp: readAddress_def ReadFullFrom_Cons ReadFullFrom_append unat_length_byte)
    from ReadAddressPort_after_address [OF this] w show ?thesis
      by (simp add: Some DomainAddress length_PutUint16)
  qed
qed

lemma DecodeUDPPacket_header:
  assumes "ReadAddressPort D (ap @ rest) = (Inr (a, p), rest)" and "2 \<le> length ap"
  shows "DecodeUDPPacket D ([0, 0, 0] @ ap @ rest) =
      (Inr \<lparr> Version = socks5Version, Command = RequestCommandUDP,
              Address = Some a, Port = p, User = None \<rparr>, rest)"
  using assms by (simp add: DecodeUDPPacket_def)

text \<open>
  Claim C3, as stated, fails. A buffer holds 8192 bytes: of a payload of 8183 bytes sent
  to an IPv4 address, whose header takes 10 bytes, the packet keeps 8182 bytes, and that
  is what decoding leaves. A domain name with a character the reading half does not
  accept (here a space) is encoded, and decoding the packet fails.
\<close>

theorem C3_counterexample:
  "EncodeUDPPacket D_ok
      \<lparr> Version = 5, Command = RequestCommandUDP, Address = Some (IPv4Address [8, 8, 8, 8]),
        Port = 443, User = None \<rparr> (replicate 8183 0) =
     Inr ([0, 0, 0, 1, 8, 8, 8, 8, 1, 187] @ replicate 8182 0) \<and>
   DecodeUDPPacket D_ok ([0, 0, 0, 1, 8, 8, 8, 8, 1, 187] @ replicate 8182 0) =
     (Inr \<lparr> Version = 5, Command = RequestCommandUDP, Address = Some (IPv4Address [8, 8, 8, 8]),
             Port = 443, User = None \<rparr>, replicate 8182 0) \<and>
   replicate 8182 (0 :: byte) \<noteq> replicate 8183 0 \<and>
   EncodeUDPPacket D_ok
      \<lparr> Version = 5, Command = RequestCommandUDP, Address = Some (DomainAddress ''a b''),
        Port = 443, User = None \<rparr> [1] =
     Inr [0, 0, 0, 3, 3, 97, 32, 98, 1, 187, 1] \<and>
   DecodeUDPPacket D_ok [0, 0, 0, 3, 3, 97, 32, 98, 1, 187, 1] =
     (Inl (Xray (Base (errors_New [Str ''failed to read UDP header''])
        (Xray (errors_New [Str ''invalid domain name: '', Str ''a b''])))), [1, 187, 1])"
proof -
  have c: "codec_address D_ok (Some (IPv4Address [8, 8, 8, 8]))"
    by simp
  have w: "WriteAddressPort (Some (IPv4Address [8, 8, 8, 8])) 443 = Inr [1, 8, 8, 8, 8, 1, 187]"
    by (simp add: WriteAddressPort_def PutUint16_def)
  have r: "ReadAddressPort D_ok ([1, 8, 8, 8, 8, 1, 187] @ replicate 8182 0) =
      (Inr (IPv4Address [8, 8, 8, 8], 443), replicate 8182 0)"
    using ReadAddressPort_WriteAddressPort [OF c, of 443 "replicate 8182 0"] w by simp
  have "EncodeUDPPacket D_ok
      \<lparr> Version = 5, Command = RequestCommandUDP, Address = Some (IPv4Address [8, 8, 8, 8]),
        Port = 443, User = None \<rparr> (replicate 8183 0) =
     Inr ([0, 0, 0, 1, 8, 8, 8, 8, 1, 187] @ replicate 8182 0)"
    by (simp add: EncodeUDPPacket_def w Buffer_Write_def D_ok_def)
  moreover have "DecodeUDPPacket D_ok ([0, 0, 0, 1, 8, 8, 8, 8, 1, 187] @ replicate 8182 0) =
     (Inr \<lparr> Version = 5, Command = RequestCommandUDP, Address = Some (IPv4Address [8, 8, 8, 8]),
             Port = 443, User = None \<rparr>, replicate 8182 0)"
    using DecodeUDPPacket_header [OF r] by (simp add: socks5Version_def)
  moreover have "replicate 8182 (0 :: byte) \<noteq> replicate 8183 0"
    by (metis length_replicate numeral_eq_iff semiring_norm(88, 89, 90))
  moreover have "EncodeUDPPacket D_ok
      \<lparr> Version = 5, Command = RequestCommandUDP, Address = Some (DomainAddress ''a b''),
        Port = 443, User = None \<rparr> [1] =
     Inr [0, 0, 0, 3, 3, 97, 32, 98, 1, 187, 1]"
    by code_simp
  moreover have "DecodeUDPPacket D_ok [0, 0, 0, 3, 3, 97, 32, 98, 1, 187, 1] =
     (Inl (Xray (Base (errors_New [Str ''failed to read UDP header''])
        (Xray (errors_New [Str ''invalid domain name: '', Str ''a b''])))), [1, 187, 1])"
    by code_simp
  ultimately show ?thesis by blast
qed

text \<open>
  Claim C3, amended. For a request header whose address is an IPv4 address, an IPv6
  address, or a domain name of 1 to 255 bytes made of letters, digits, \<open>-\<close>, \<open>.\<close> and
  \<open>_\<close> that is not read as an IP literal, and a payload that fits the buffer behind the
  header (header and payload together at most the capacity of a buffer, 8192 bytes),
  \<^verbatim>\<open>EncodeUDPPacket\<close> succeeds, \<^verbatim>\<open>DecodeUDPPacket\<close> of the packet succeeds with
  the same address and port, and what is left of the packet is the payload.
\<close>

theorem C3_udp_packet_roundtrip:
  assumes "codec_address D (Address h)"
    and "udp_header_length (Address h) + length p \<le> buf_Size D"
  shows "\<exists>packet h'. EncodeUDPPacket D h p = Inr packet \<and>
           DecodeUDPPacket D packet = (Inr h', p) \<and>
           Address h' = Address h \<and> Port h' = Port h"
proof -
  from ReadAddressPort_WriteAddressPort [OF assms(1), of "Port h" p] obtain ap a' where
    w: "WriteAddressPort (Address h) (Port h) = Inr ap" and a: "Address h = Some a'"
    and r: "ReadAddressPort D (ap @ p) = (Inr (a', Port h), p)"
    and len: "3 + length ap = udp_header_length (Address h)"
    by blast
  have fits: "3 + length ap + length p \<le> buf_Size D"
    using assms(2) len by simp
  have enc: "EncodeUDPPacket D h p = Inr ([0, 0, 0] @ ap @ p)"
    using fits by (simp add: EncodeUDPPacket_def w Buffer_Write_def)
  have "2 \<le> length ap"
    using len a by (cases a') auto
  from DecodeUDPPacket_header [OF r this] enc a show ?thesis
    by simp
qed

theorem C3_witness:
  "codec_address D_ok (Some (DomainAddress ''a.io'')) \<and>
   udp_header_length (Some (DomainAddress ''a.io'')) + length [1, 2, 3 :: byte] \<le> buf_Size D_ok \<and>
   (\<exists>packet h'.
      EncodeUDPPacket D_ok \<lparr> Version = 5, Command = RequestCommandUDP,
          Address = Some (DomainAddress ''a.io''), Port = 443, User = None \<rparr> [1, 2, 3] = Inr packet \<and>
      DecodeUDPPacket D_ok packet = (Inr h', [1, 2, 3]) \<and>
      Address h' = Some (DomainAddress ''a.io'') \<and> Port h' = 443)"
proof -
  have c: "codec_address D_ok (Some (DomainAddress ''a.io''))"
    by (simp add: isValidDomain_def isValidDomainChar_def maybeIPPrefix_def)
  have l: "udp_header_length (Some (DomainAddress ''a.io'')) + length [1, 2, 3 :: byte]
      \<le> buf_Size D_ok"
    by (simp add: D_ok_def)
  show ?thesis
    using c l C3_udp_packet_roundtrip [of D_ok "\<lparr> Version = 5, Command = RequestCommandUDP,
          Address = Some (DomainAddress ''a.io''), Port = 443, User = None \<rparr>" "[1, 2, 3]"]
    by simp
qed

subsection \<open>SOCKS4 and the configured authentication\<close>

lemma writeSocks4Response_AnyIP:
  "writeSocks4Response D w code AnyIP 0 =
     (write_result D w [0x00, code, 0, 0, 0, 0, 0, 0], w @ [[0x00, code, 0, 0, 0, 0, 0, 0]])"
  by (simp add: writeSocks4Response_def AnyIP_def PutUint16_def WriteAllBytes_def)

text \<open>
  Claim C2. When the server asks for a password (\<^verbatim>\<open>AuthType_PASSWORD\<close>), a SOCKS4/4a
  handshake fails with an error whatever the request is, and when the error is returned the
  writer has been handed exactly one more message: the SOCKS4 reply whose status byte is
  91 (request rejected). The same holds through \<^verbatim>\<open>Handshake\<close> on a stream that
  starts with the version byte 4.
\<close>

theorem C2_socks4_rejected_under_password:
  assumes "AuthType (config s) = AuthType_PASSWORD"
  shows "\<exists>err.
     handshake4 D s cmd reader writer =
       (Inl err, reader, writer @ [[0x00, socks4RequestRejected, 0, 0, 0, 0, 0, 0]]) \<and>
     Handshake D s (socks4Version # cmd # reader) writer =
       (Inl err, reader, writer @ [[0x00, 91, 0, 0, 0, 0, 0, 0]]) \<and>
     socks4RequestRejected = 91"
  using assms
  by (simp add: handshake4_def Handshake_def writeSocks4Response_AnyIP ReadFullFrom_def
      socks4RequestRejected_def socks4Version_def)

theorem C2_witness:
  "AuthType (config s_password) = AuthType_PASSWORD \<and>
   (\<exists>err. Handshake D_ok s_password [4, 1, 0, 80, 1, 2, 3, 4, 0] [] =
      (Inl err, [0, 80, 1, 2, 3, 4, 0], [[0, 91, 0, 0, 0, 0, 0, 0]]))"
  using C2_socks4_rejected_under_password
    [where s = s_password and D = D_ok and cmd = 1 and reader = "[0, 80, 1, 2, 3, 4, 0]"
       and writer = "[]"]
  by (auto simp: s_password_def socks4Version_def)

lemma ReadUntilNull_loop_ok:
  "0 \<notin> set u \<Longrightarrow> length b + length u < cap \<Longrightarrow>
   ReadUntilNull_loop cap b (u @ 0 # rest) = (Inr (string_of_bytes (b @ u)), rest)"
  by (induction u arbitrary: b) (auto simp: Let_def)

lemma ReadUntilNull_ok:
  "0 \<notin> set u \<Longrightarrow> length u < buf_Size D \<Longrightarrow>
   ReadUntilNull D (u @ 0 # rest) = (Inr (string_of_bytes u), rest)"
  using ReadUntilNull_loop_ok [of u "[]"] by (simp add: ReadUntilNull_def)

text \<open>
  Claim C9. When the server asks for a key (\<^verbatim>\<open>AuthType_KEYAUTH\<close>), a SOCKS4/4a
  handshake is not rejected up front: it runs exactly as with no authentication
  configured, and a well-formed CONNECT request (port, a non-zero-led IPv4 address, a
  user id that fits the buffer, the terminating zero) is granted with reply byte 90 and
  yields a request header without a user.
\<close>

theorem C9_socks4_not_rejected_under_keyauth:
  assumes "AuthType (config s) = AuthType_KEYAUTH"
  shows "handshake4 D s cmd reader writer =
           handshake4 D (s\<lparr>config := (config s)\<lparr>AuthType := AuthType_NO_AUTH\<rparr>\<rparr>) cmd reader writer
       \<and> (length ip = 4 \<and> ip ! 0 \<noteq> 0 \<and> 0 \<notin> set userid \<and> length userid < buf_Size D \<and>
          write_result D writer [0x00, 90, 0, 0, 0, 0, 0, 0] = None \<longrightarrow>
          handshake4 D s cmdTCPConnect (PutUint16 p @ ip @ userid @ [0] @ rest) writer =
            (Inr \<lparr> Version = socks4Version, Command = RequestCommandTCP,
                    Address = Some (IPv4Address ip), Port = p, User = None \<rparr>,
             rest, writer @ [[0x00, 90, 0, 0, 0, 0, 0, 0]]))"
proof (intro conjI impI)
  show "handshake4 D s cmd reader writer =
           handshake4 D (s\<lparr>config := (config s)\<lparr>AuthType := AuthType_NO_AUTH\<rparr>\<rparr>) cmd reader writer"
    using assms by (simp add: handshake4_def)
next
  assume h: "length ip = 4 \<and> ip ! 0 \<noteq> 0 \<and> 0 \<notin> set userid \<and> length userid < buf_Size D \<and>
          write_result D writer [0x00, 90, 0, 0, 0, 0, 0, 0] = None"
  have rd: "ReadFullFrom (PutUint16 p @ ip @ userid @ 0 # rest) 6 =
      (Inr (PutUint16 p @ ip), userid @ 0 # rest)"
    using h ReadFullFrom_append [of "PutUint16 p @ ip" 6 "userid @ 0 # rest"]
    by (simp add: PutUint16_def)
  have br: "BytesRange (PutUint16 p @ ip) 2 6 = ip"
    using h by (simp add: BytesRange_def PutUint16_def)
  have pt: "PortFromBytes (BytesRange (PutUint16 p @ ip) 0 2) = p"
    using PortFromBytes_PutUint16 [of p "[]"] by (simp add: BytesRange_def PutUint16_def)
  show "handshake4 D s cmdTCPConnect (PutUint16 p @ ip @ userid @ [0] @ rest) writer =
            (Inr \<lparr> Version = socks4Version, Command = RequestCommandTCP,
                    Address = Some (IPv4Address ip), Port = p, User = None \<rparr>,
             rest, writer @ [[0x00, 90, 0, 0, 0, 0, 0, 0]])"
    using assms h
    by (simp add: handshake4_def rd br pt ReadUntilNull_ok IPAddress_def
        writeSocks4Response_AnyIP socks4RequestGranted_def)
qed


theorem C9_witness:
  "AuthType (config s_key) = AuthType_KEYAUTH \<and>
   handshake4 D_ok s_key 1 [0, 80, 1, 2, 3, 4, 117, 0] [] =
     (Inr \<lparr> Version = 4, Command = RequestCommandTCP,
             Address = Some (IPv4Address [1, 2, 3, 4]), Port = 80, User = None \<rparr>,
      [], [[0, 90, 0, 0, 0, 0, 0, 0]])"
  using C9_socks4_not_rejected_under_keyauth
    [where s = s_key and D = D_ok and ip = "[1, 2, 3, 4]" and userid = "[117]" and p = 80
       and rest = "[]" and writer = "[]", THEN conjunct2]
  by (simp add: s_key_def D_ok_def PutUint16_def cmdTCPConnect_def socks4Version_def)

subsection \<open>SOCKS5 method negotiation and authentication\<close>

lemma ReadFullFrom_ok:
  "n \<le> length r \<Longrightarrow> ReadFullFrom r n = (Inr (take n r), drop n r)"
  by (simp add: ReadFullFrom_def)

lemma hasAuthMethod_iff: "hasAuthMethod e cs \<longleftrightarrow> e \<in> set cs"
  by (induction cs) auto

text \<open>
  Claim C5. In a SOCKS5 method negotiation whose \<open>nMethod\<close> candidate bytes arrive, the
  server expects one method, fixed by its configuration: 0 for \<^verbatim>\<open>NO_AUTH\<close>, 2 for
  \<^verbatim>\<open>PASSWORD\<close> and for \<^verbatim>\<open>KEYAUTH\<close> alike. If that byte is not among the
  candidates, the server writes the reply \<open>[5, 0xFF]\<close>, nothing else, and fails;
  otherwise the first thing it writes is \<open>[5, expected]\<close>.
\<close>

theorem C5_auth5_method_negotiation:
  assumes "unat nMethod \<le> length reader"
  shows "expectedAuth (config s) =
           (case AuthType (config s) of
              AuthType_NO_AUTH \<Rightarrow> 0x00 | AuthType_PASSWORD \<Rightarrow> 0x02 | AuthType_KEYAUTH \<Rightarrow> 0x02)
       \<and> (expectedAuth (config s) \<notin> set (take (unat nMethod) reader) \<longrightarrow>
            auth5 D s nMethod reader writer =
              (Inl (Xray (errors_New [Str ''no matching auth method''])),
               drop (unat nMethod) reader, writer @ [[0x05, 0xFF]]))
       \<and> (expectedAuth (config s) \<in> set (take (unat nMethod) reader) \<longrightarrow>
            (\<exists>res r w. auth5 D s nMethod reader writer =
               (res, r, writer @ [0x05, expectedAuth (config s)] # w)))"
proof (intro conjI impI)
  show "expectedAuth (config s) =
           (case AuthType (config s) of
              AuthType_NO_AUTH \<Rightarrow> 0x00 | AuthType_PASSWORD \<Rightarrow> 0x02 | AuthType_KEYAUTH \<Rightarrow> 0x02)"
    by (simp add: expectedAuth_def authPassword_def authNotRequired_def split: AuthType.splits)
next
  assume "expectedAuth (config s) \<notin> set (take (unat nMethod) reader)"
  then show "auth5 D s nMethod reader writer =
              (Inl (Xray (errors_New [Str ''no matching auth method''])),
               drop (unat nMethod) reader, writer @ [[0x05, 0xFF]])"
    using assms
    by (simp add: auth5_def ReadFullFrom_ok BytesRange_def hasAuthMethod_iff
        writeSocks5AuthenticationResponse_def WriteAllBytes_def socks5Version_def
        authNoMatchingMethod_def)
next
  assume "expectedAuth (config s) \<in> set (take (unat nMethod) reader)"
  then show "\<exists>res r w. auth5 D s nMethod reader writer =
               (res, r, writer @ [0x05, expectedAuth (config s)] # w)"
    using assms
    by (auto simp: auth5_def ReadFullFrom_ok BytesRange_def hasAuthMethod_iff
        writeSocks5AuthenticationResponse_def WriteAllBytes_def socks5Version_def
        split: prod.splits option.splits sum.splits)
qed

theorem C5_witness:
  "unat (2 :: byte) \<le> length [0, 1 :: byte] \<and>
   auth5 D_ok s_key 2 [0, 1] [] =
     (Inl (Xray (errors_New [Str ''no matching auth method''])), [], [[5, 255]]) \<and>
   (\<exists>res r w. auth5 D_ok s_key 2 [0, 2] [] = (res, r, [5, 2] # w))"
proof -
  have e: "expectedAuth (config s_key) = 2"
    by (simp add: expectedAuth_def s_key_def authPassword_def)
  have "auth5 D_ok s_key 2 [0, 1] [] =
     (Inl (Xray (errors_New [Str ''no matching auth method''])), [], [[5, 255]])"
    using C5_auth5_method_negotiation
      [where nMethod = 2 and reader = "[0, 1]" and s = s_key and D = D_ok and writer = "[]",
        THEN conjunct2, THEN conjunct1]
    by (simp add: e)
  moreover have "\<exists>res r w. auth5 D_ok s_key 2 [0, 2] [] = (res, r, [5, 2] # w)"
    using C5_auth5_method_negotiation
      [where nMethod = 2 and reader = "[0, 2]" and s = s_key and D = D_ok and writer = "[]",
        THEN conjunct2, THEN conjunct2]
    by (simp add: e)
  ultimately show ?thesis by simp
qed

text \<open>
  Claim C7, as stated, fails: a key authentication with an empty username succeeds
  (\<^verbatim>\<open>auth5\<close> returns the empty username after the success reply \<open>[1, 0]\<close>), and the
  request header that \<^verbatim>\<open>handshake5\<close> produces carries no user record.
\<close>

theorem C7_counterexample:
  "auth5 D_ok s_key 1 [2, 1, 0, 1, 107, 5, 1, 0, 1, 1, 2, 3, 4, 0, 80] [] =
     (Inr [], [5, 1, 0, 1, 1, 2, 3, 4, 0, 80], [[5, 2], [1, 0]]) \<and>
   handshake5 D_ok s_key 1 [2, 1, 0, 1, 107, 5, 1, 0, 1, 1, 2, 3, 4, 0, 80] [] =
     (Inr \<lparr> Version = 5, Command = RequestCommandTCP, Address = Some (IPv4Address [1, 2, 3, 4]),
             Port = 80, User = None \<rparr>,
      [], [[5, 2], [1, 0], [5, 0, 0, 1, 127, 0, 0, 1, 4, 56]])"
  by code_simp

text \<open>
  Claim C7, amended. After a successful password-style authentication (password or key),
  the username that \<^verbatim>\<open>auth5\<close> returns is the one read from the sub-negotiation, whose
  password field passed the configured check; a request header that
  \<^verbatim>\<open>handshake5\<close> then produces carries a user record with that username as its
  \<^verbatim>\<open>Email\<close> when the username is not empty, and no user record when it is empty.
\<close>

theorem C7_username_carried_when_nonempty:
  assumes "AuthType (config s) \<noteq> AuthType_NO_AUTH"
    and "auth5 D s nMethod reader writer = (Inr username, r1, w1)"
  shows "(\<exists>password.
            ReadUsernamePassword (drop (unat nMethod) reader) = (Inr (username, password), r1) \<and>
            (if AuthType (config s) = AuthType_PASSWORD
             then HasAccount (config s) username password
             else ValidateKey (config s) password)) \<and>
         (\<forall>request r2 w2.
            handshake5 D s nMethod reader writer = (Inr request, r2, w2) \<longrightarrow>
            User request =
              (if username = [] then None
               else Some \<lparr> Email = username, UserAccount = None \<rparr>))"
proof (intro conjI allI impI)
  have e: "expectedAuth (config s) = authPassword"
    using assms(1) by (cases "AuthType (config s)") (simp_all add: expectedAuth_def)
  show "\<exists>password.
            ReadUsernamePassword (drop (unat nMethod) reader) = (Inr (username, password), r1) \<and>
            (if AuthType (config s) = AuthType_PASSWORD
             then HasAccount (config s) username password
             else ValidateKey (config s) password)"
    using assms
    by (cases "AuthType (config s)")
       (auto simp: auth5_def e ReadFullFrom_def 
        split: prod.splits option.splits sum.splits if_splits)
next
  fix request r2 w2
  assume "handshake5 D s nMethod reader writer = (Inr request, r2, w2)"
  then show "User request =
              (if username = [] then None
               else Some \<lparr> Email = username, UserAccount = None \<rparr>)"
    using assms(2)
    by (auto simp: handshake5_def Let_def split: prod.splits option.splits sum.splits if_splits)
qed

theorem C7_witness:
  "AuthType (config s_key) \<noteq> AuthType_NO_AUTH \<and>
   auth5 D_ok s_key 1 [2, 1, 1, 117, 1, 107, 5, 1, 0, 1, 1, 2, 3, 4, 0, 80] [] =
     (Inr ''u'', [5, 1, 0, 1, 1, 2, 3, 4, 0, 80], [[5, 2], [1, 0]]) \<and>
   (\<exists>request r2 w2.
      handshake5 D_ok s_key 1 [2, 1, 1, 117, 1, 107, 5, 1, 0, 1, 1, 2, 3, 4, 0, 80] [] =
        (Inr request, r2, w2) \<and>
      User request = Some \<lparr> Email = ''u'', UserAccount = None \<rparr>)"
proof -
  have a: "AuthType (config s_key) \<noteq> AuthType_NO_AUTH"
    by (simp add: s_key_def)
  have b: "auth5 D_ok s_key 1 [2, 1, 1, 117, 1, 107, 5, 1, 0, 1, 1, 2, 3, 4, 0, 80] [] =
     (Inr ''u'', [5, 1, 0, 1, 1, 2, 3, 4, 0, 80], [[5, 2], [1, 0]])"
    by code_simp
  define request where "request = \<lparr> Version = 5, Command = RequestCommandTCP,
      Address = Some (IPv4Address [1, 2, 3, 4]), Port = 80,
      User = Some \<lparr> Email = ''u'', UserAccount = None \<rparr> \<rparr>"
  have c: "handshake5 D_ok s_key 1 [2, 1, 1, 117, 1, 107, 5, 1, 0, 1, 1, 2, 3, 4, 0, 80] [] =
        (Inr request, [], [[5, 2], [1, 0], [5, 0, 0, 1, 127, 0, 0, 1, 4, 56]])"
    unfolding request_def by code_simp
  have "User request = Some \<lparr> Email = ''u'', UserAccount = None \<rparr>"
    using C7_username_carried_when_nonempty [OF a b, THEN conjunct2] c by simp
  with a b c show ?thesis by blast
qed

subsection \<open>The client handshake\<close>

text \<open>
  Claim C8, as stated, fails in one case: when the server answers the method negotiation
  with a method byte other than the one offered (here \<open>0xFF\<close> for the offered 0), the
  error is the fixed message and does not report the byte.
\<close>

theorem C8_counterexample:
  "ClientHandshake D_ok req_noauth [5, 0xFF] [] =
     (Inl (Xray (Error [Str ''auth method not supported.''] (Some Severity_Warning) None)),
      [], [[5, 1, 0]])"
  by code_simp

text \<open>
  Claim C8, amended. In a client handshake whose first write succeeds: a reply with a
  version byte other than 5 gives an error that reports that byte; a reply with a method
  byte other than the one offered gives the fixed error
  \<^verbatim>\<open>auth method not supported.\<close>, which does not carry the byte; in both cases the
  only write made is the method negotiation. A non-zero status byte of the
  authentication reply, and a non-zero status byte of the reply to the request, each give
  an error that reports that byte (the earlier writes having succeeded, and the request
  being one that can be serialised).
\<close>

theorem C8_client_handshake_failures:
  fixes request :: RequestHeader and D :: deps
  defines "authByte \<equiv> (if User request \<noteq> None then authPassword else authNotRequired)"
  assumes w1: "write_result D writer [0x05, 0x01, authByte] = None"
  shows
   "(v \<noteq> 0x05 \<longrightarrow>
       ClientHandshake D request (v # m # rest) writer =
         (Inl (Xray (AtWarning (errors_New [Str ''unexpected server version: '', Byte v]))),
          rest, writer @ [[0x05, 0x01, authByte]])) \<and>
    (m \<noteq> authByte \<longrightarrow>
       ClientHandshake D request (0x05 # m # rest) writer =
         (Inl (Xray (AtWarning (errors_New [Str ''auth method not supported.'']))),
          rest, writer @ [[0x05, 0x01, authByte]])) \<and>
    (\<forall>user account amsg.
       User request = Some user \<and> UserAccount user = Some account \<and>
       amsg = [0x01, of_nat (length (Username account))] @ bytes_of_string (Username account)
              @ [of_nat (length (Password account))] @ bytes_of_string (Password account) \<and>
       write_result D (writer @ [[0x05, 0x01, 0x02]]) amsg = None \<and> st \<noteq> 0x00 \<longrightarrow>
       ClientHandshake D request (0x05 # 0x02 # x # st # rest) writer =
         (Inl (Xray (errors_New [Str ''server rejects account: '', Byte st])),
          rest, writer @ [[0x05, 0x01, 0x02], amsg])) \<and>
    (\<forall>ap rmsg.
       User request = None \<and>
       (Command request \<noteq> RequestCommandUDP \<longrightarrow>
          WriteAddressPort (Address request) (Port request) = Inr ap) \<and>
       rmsg = (if Command request = RequestCommandUDP
               then [0x05, 0x03, 0x00, 1, 0, 0, 0, 0, 0, 0] else [0x05, 0x01, 0x00] @ ap) \<and>
       write_result D (writer @ [[0x05, 0x01, 0x00]]) rmsg = None \<and> resp \<noteq> 0x00 \<longrightarrow>
       ClientHandshake D request (0x05 # 0x00 # a # resp # c # rest) writer =
         (Inl (Xray (errors_New [Str ''server rejects request: '', Byte resp])),
          rest, writer @ [[0x05, 0x01, 0x00], rmsg])) \<and>
    (\<forall>user account amsg ap rmsg.
       User request = Some user \<and> UserAccount user = Some account \<and>
       amsg = [0x01, of_nat (length (Username account))] @ bytes_of_string (Username account)
              @ [of_nat (length (Password account))] @ bytes_of_string (Password account) \<and>
       write_result D (writer @ [[0x05, 0x01, 0x02]]) amsg = None \<and>
       (Command request \<noteq> RequestCommandUDP \<longrightarrow>
          WriteAddressPort (Address request) (Port request) = Inr ap) \<and>
       rmsg = (if Command request = RequestCommandUDP
               then [0x05, 0x03, 0x00, 1, 0, 0, 0, 0, 0, 0] else [0x05, 0x01, 0x00] @ ap) \<and>
       write_result D (writer @ [[0x05, 0x01, 0x02], amsg]) rmsg = None \<and> resp \<noteq> 0x00 \<longrightarrow>
       ClientHandshake D request (0x05 # 0x02 # x # 0x00 # a # resp # c # rest) writer =
         (Inl (Xray (errors_New [Str ''server rejects request: '', Byte resp])),
          rest, writer @ [[0x05, 0x01, 0x02], amsg, rmsg]))"
proof (intro conjI impI allI)
  assume "v \<noteq> 0x05"
  then show "ClientHandshake D request (v # m # rest) writer =
         (Inl (Xray (AtWarning (errors_New [Str ''unexpected server version: '', Byte v]))),
          rest, writer @ [[0x05, 0x01, authByte]])"
    using w1
    by (simp add: ClientHandshake_def authByte_def WriteAllBytes_def ReadFullFrom_def
        socks5Version_def)
next
  assume "m \<noteq> authByte"
  then show "ClientHandshake D request (0x05 # m # rest) writer =
         (Inl (Xray (AtWarning (errors_New [Str ''auth method not supported.'']))),
          rest, writer @ [[0x05, 0x01, authByte]])"
    using w1
    by (simp add: ClientHandshake_def authByte_def WriteAllBytes_def ReadFullFrom_def
        socks5Version_def)
next
  fix user account amsg
  assume h: "User request = Some user \<and> UserAccount user = Some account \<and>
       amsg = [0x01, of_nat (length (Username account))] @ bytes_of_string (Username account)
              @ [of_nat (length (Password account))] @ bytes_of_string (Password account) \<and>
       write_result D (writer @ [[0x05, 0x01, 0x02]]) amsg = None \<and> st \<noteq> 0x00"
  then show "ClientHandshake D request (0x05 # 0x02 # x # st # rest) writer =
         (Inl (Xray (errors_New [Str ''server rejects account: '', Byte st])),
          rest, writer @ [[0x05, 0x01, 0x02], amsg])"
    using w1
    by (clarsimp simp: ClientHandshake_def authByte_def WriteAllBytes_def ReadFullFrom_def
        socks5Version_def authPassword_def)
next
  fix ap rmsg
  assume h: "User request = None \<and>
       (Command request \<noteq> RequestCommandUDP \<longrightarrow>
          WriteAddressPort (Address request) (Port request) = Inr ap) \<and>
       rmsg = (if Command request = RequestCommandUDP
               then [0x05, 0x03, 0x00, 1, 0, 0, 0, 0, 0, 0] else [0x05, 0x01, 0x00] @ ap) \<and>
       write_result D (writer @ [[0x05, 0x01, 0x00]]) rmsg = None \<and> resp \<noteq> 0x00"
  then show "ClientHandshake D request (0x05 # 0x00 # a # resp # c # rest) writer =
         (Inl (Xray (errors_New [Str ''server rejects request: '', Byte resp])),
          rest, writer @ [[0x05, 0x01, 0x00], rmsg])"
    using w1
    by (cases "Command request = RequestCommandUDP")
       (clarsimp simp: ClientHandshake_def authByte_def WriteAllBytes_def ReadFullFrom_def
        socks5Version_def authPassword_def authNotRequired_def cmdUDPAssociate_def
        cmdTCPConnect_def)+
next
  fix user account amsg ap rmsg
  assume h: "User request = Some user \<and> UserAccount user = Some account \<and>
       amsg = [0x01, of_nat (length (Username account))] @ bytes_of_string (Username account)
              @ [of_nat (length (Password account))] @ bytes_of_string (Password account) \<and>
       write_result D (writer @ [[0x05, 0x01, 0x02]]) amsg = None \<and>
       (Command request \<noteq> RequestCommandUDP \<longrightarrow>
          WriteAddressPort (Address request) (Port request) = Inr ap) \<and>
       rmsg = (if Command request = RequestCommandUDP
               then [0x05, 0x03, 0x00, 1, 0, 0, 0, 0, 0, 0] else [0x05, 0x01, 0x00] @ ap) \<and>
       write_result D (writer @ [[0x05, 0x01, 0x02], amsg]) rmsg = None \<and> resp \<noteq> 0x00"
  then show "ClientHandshake D request (0x05 # 0x02 # x # 0x00 # a # resp # c # rest) writer =
         (Inl (Xray (errors_New [Str ''server rejects request: '', Byte resp])),
          rest, writer @ [[0x05, 0x01, 0x02], amsg, rmsg])"
    using w1
    by (cases "Command request = RequestCommandUDP")
       (clarsimp simp: ClientHandshake_def authByte_def WriteAllBytes_def ReadFullFrom_def
        socks5Version_def authPassword_def authNotRequired_def cmdUDPAssociate_def
        cmdTCPConnect_def)+
qed

theorem C8_witness:
  "write_result D_ok [] [0x05, 0x01, 0x00] = None \<and>
   ClientHandshake D_ok req_noauth [4, 0] [] =
     (Inl (Xray (AtWarning (errors_New [Str ''unexpected server version: '', Byte 4]))),
      [], [[5, 1, 0]]) \<and>
   ClientHandshake D_ok req_noauth [5, 2] [] =
     (Inl (Xray (AtWarning (errors_New [Str ''auth method not supported.'']))),
      [], [[5, 1, 0]]) \<and>
   ClientHandshake D_ok req_noauth [5, 0, 5, 4, 0] [] =
     (Inl (Xray (errors_New [Str ''server rejects request: '', Byte 4])),
      [], [[5, 1, 0], [5, 1, 0, 3, 4, 97, 46, 105, 111, 1, 187]]) \<and>
   ClientHandshake D_ok req_auth [5, 2, 1, 1] [] =
     (Inl (Xray (errors_New [Str ''server rejects account: '', Byte 1])),
      [], [[5, 1, 2], [1, 1, 117, 2, 112, 119]])"
proof -
  have w: "write_result D_ok [] [0x05, 0x01,
      if User req_noauth \<noteq> None then authPassword else authNotRequired] = None"
    by (simp add: D_ok_def)
  have w': "write_result D_ok [] [0x05, 0x01,
      if User req_auth \<noteq> None then authPassword else authNotRequired] = None"
    by (simp add: D_ok_def)
  have "ClientHandshake D_ok req_noauth [4, 0] [] =
     (Inl (Xray (AtWarning (errors_New [Str ''unexpected server version: '', Byte 4]))),
      [], [[5, 1, 0]])"
    using C8_client_handshake_failures [OF w, where v = 4 and m = 0 and rest = "[]",
        THEN conjunct1]
    by (simp add: req_noauth_def authNotRequired_def)
  moreover have "ClientHandshake D_ok req_noauth [5, 2] [] =
     (Inl (Xray (AtWarning (errors_New [Str ''auth method not supported.'']))),
      [], [[5, 1, 0]])"
    using C8_client_handshake_failures [OF w, where m = 2 and rest = "[]",
        THEN conjunct2, THEN conjunct1]
    by (simp add: req_noauth_def authNotRequired_def)
  moreover have "ClientHandshake D_ok req_noauth [5, 0, 5, 4, 0] [] =
     (Inl (Xray (errors_New [Str ''server rejects request: '', Byte 4])),
      [], [[5, 1, 0], [5, 1, 0, 3, 4, 97, 46, 105, 111, 1, 187]])"
    using C8_client_handshake_failures [OF w, where resp = 4 and a = 5 and c = 0 and rest = "[]",
        THEN conjunct2, THEN conjunct2, THEN conjunct2, THEN conjunct1, rule_format,
        where ap = "[3, 4, 97, 46, 105, 111, 1, 187]"
          and rmsg = "[5, 1, 0, 3, 4, 97, 46, 105, 111, 1, 187]"]
    by (simp add: req_noauth_def D_ok_def WriteAddressPort_def PutUint16_def
        bytes_of_string_def)
  moreover have "ClientHandshake D_ok req_auth [5, 2, 1, 1] [] =
     (Inl (Xray (errors_New [Str ''server rejects account: '', Byte 1])),
      [], [[5, 1, 2], [1, 1, 117, 2, 112, 119]])"
    using C8_client_handshake_failures [OF w', where x = 1 and st = 1 and rest = "[]",
        THEN conjunct2, THEN conjunct2, THEN conjunct1, rule_format,
        where user = "\<lparr> Email = ''u'', UserAccount = Some \<lparr> Username = ''u'', Password = ''pw'' \<rparr> \<rparr>"
          and account = "\<lparr> Username = ''u'', Password = ''pw'' \<rparr>"
          and amsg = "[1, 1, 117, 2, 112, 119]"]
    by (simp add: req_auth_def D_ok_def bytes_of_string_def)
  ultimately show ?thesis
    by (simp add: D_ok_def)
qed

subsection \<open>Construction of the multiplexing pools\<close>

lemma sint32_trichotomy:
  fixes c :: int32
  shows "sint c < 0 \<or> c = 0 \<or> sint c > 0"
  by (metis linorder_neqE_linordered_idom signed_eq_0_iff)

lemma NewHandler_multiplex_enabled:
  assumes "senderSettings h = Some ss" "MultiplexSettings ss = Some mc" "mux_Enabled mc"
  shows "mux (NewHandler_multiplex p h) =
           (if sint (Concurrency mc) < 0 then Some \<lparr> Enabled = False, Picker = None \<rparr>
            else Some \<lparr> Enabled = True, Picker = Some \<lparr> Factory =
                   \<lparr> Proxy = p, Dialer = tag h,
                     Strategy = \<lparr> MaxConcurrency = (if Concurrency mc = 0 then 8 else Concurrency mc),
                                  MaxConnection = 128 \<rparr> \<rparr> \<rparr> \<rparr>)"
    and "xudp (NewHandler_multiplex p h) =
           (if sint (XudpConcurrency mc) < 0 then Some \<lparr> Enabled = False, Picker = None \<rparr>
            else if XudpConcurrency mc = 0 then None
            else Some \<lparr> Enabled = True, Picker = Some \<lparr> Factory =
                   \<lparr> Proxy = p, Dialer = tag h,
                     Strategy = \<lparr> MaxConcurrency = XudpConcurrency mc,
                                  MaxConnection = 128 \<rparr> \<rparr> \<rparr> \<rparr>)"
    and "udp443 (NewHandler_multiplex p h) = XudpProxyUDP443 mc"
  using assms sint32_trichotomy [of "Concurrency mc"] sint32_trichotomy [of "XudpConcurrency mc"]
  by (auto simp: NewHandler_multiplex_def Let_def)

text \<open>
  Claim C4. When a handler is constructed from sender settings whose multiplexing is
  enabled, the TCP mux pool is disabled for a negative concurrency, enabled with
  concurrency 8 for concurrency 0, and enabled with the given concurrency when it is
  positive, with 128 connections per worker at most; the xudp pool follows the same rule,
  except that an xudp concurrency of 0 gives no xudp pool at all.
\<close>

theorem C4_mux_pools_tristate:
  assumes "NewHandler conf = Inr h"
    and "SenderSettings_instance conf = Some (Inr (IsSenderConfig ss))"
    and "MultiplexSettings ss = Some mc" and "mux_Enabled mc"
  shows "\<exists>p. CreateObject_result conf = Inr (Some p) \<and>
     mux h =
       (if sint (Concurrency mc) < 0 then Some \<lparr> Enabled = False, Picker = None \<rparr>
        else Some \<lparr> Enabled = True, Picker = Some \<lparr> Factory =
               \<lparr> Proxy = p, Dialer = Tag conf,
                 Strategy = \<lparr> MaxConcurrency = (if Concurrency mc = 0 then 8 else Concurrency mc),
                              MaxConnection = 128 \<rparr> \<rparr> \<rparr> \<rparr>) \<and>
     xudp h =
       (if sint (XudpConcurrency mc) < 0 then Some \<lparr> Enabled = False, Picker = None \<rparr>
        else if XudpConcurrency mc = 0 then None
        else Some \<lparr> Enabled = True, Picker = Some \<lparr> Factory =
               \<lparr> Proxy = p, Dialer = Tag conf,
                 Strategy = \<lparr> MaxConcurrency = XudpConcurrency mc,
                              MaxConnection = 128 \<rparr> \<rparr> \<rparr> \<rparr>)"
proof -
  define h0 where "h0 = \<lparr> tag = Tag conf, senderSettings = Some ss, proxy = None,
                 mux = None, xudp = None, udp443 = [] \<rparr>"
  from assms(1,2) obtain p where p: "CreateObject_result conf = Inr (Some p)"
    and h: "h = (NewHandler_multiplex p h0)\<lparr>proxy := Some p\<rparr>"
    by (auto simp: NewHandler_def h0_def split: option.splits sum.splits)
  have s: "senderSettings h0 = Some ss" and t: "tag h0 = Tag conf"
    by (simp_all add: h0_def)
  show ?thesis
    using p NewHandler_multiplex_enabled(1,2) [OF s assms(3,4), of p]
    by (simp add: h t)
qed

theorem C4_witness:
  "(\<exists>h. NewHandler conf_default = Inr h \<and>
      mux h = Some \<lparr> Enabled = True, Picker = Some \<lparr> Factory = \<lparr> Proxy = 7, Dialer = ''out'',
                 Strategy = \<lparr> MaxConcurrency = 8, MaxConnection = 128 \<rparr> \<rparr> \<rparr> \<rparr> \<and>
      xudp h = None) \<and>
   (\<exists>h. NewHandler conf_negative = Inr h \<and>
      mux h = Some \<lparr> Enabled = False, Picker = None \<rparr> \<and>
      xudp h = Some \<lparr> Enabled = True, Picker = Some \<lparr> Factory = \<lparr> Proxy = 7, Dialer = ''out'',
                 Strategy = \<lparr> MaxConcurrency = 16, MaxConnection = 128 \<rparr> \<rparr> \<rparr> \<rparr>)"
proof -
  obtain h1 where h1: "NewHandler conf_default = Inr h1"
    by (simp add: NewHandler_def conf_default_def)
  obtain h2 where h2: "NewHandler conf_negative = Inr h2"
    by (simp add: NewHandler_def conf_negative_def)
  have "mux h1 = Some \<lparr> Enabled = True, Picker = Some \<lparr> Factory = \<lparr> Proxy = 7, Dialer = ''out'',
                 Strategy = \<lparr> MaxConcurrency = 8, MaxConnection = 128 \<rparr> \<rparr> \<rparr> \<rparr> \<and>
        xudp h1 = None"
    using C4_mux_pools_tristate [OF h1, where mc = "\<lparr> mux_Enabled = True, Concurrency = 0,
        XudpConcurrency = 0, XudpProxyUDP443 = ''reject'' \<rparr>"
        and ss = "\<lparr> MultiplexSettings = Some \<lparr> mux_Enabled = True, Concurrency = 0,
        XudpConcurrency = 0, XudpProxyUDP443 = ''reject'' \<rparr> \<rparr>"]
    by (simp add: conf_default_def)
  moreover have "mux h2 = Some \<lparr> Enabled = False, Picker = None \<rparr> \<and>
      xudp h2 = Some \<lparr> Enabled = True, Picker = Some \<lparr> Factory = \<lparr> Proxy = 7, Dialer = ''out'',
                 Strategy = \<lparr> MaxConcurrency = 16, MaxConnection = 128 \<rparr> \<rparr> \<rparr> \<rparr>"
    using C4_mux_pools_tristate [OF h2, where mc = "\<lparr> mux_Enabled = True, Concurrency = - 1,
        XudpConcurrency = 16, XudpProxyUDP443 = ''skip'' \<rparr>"
        and ss = "\<lparr> MultiplexSettings = Some \<lparr> mux_Enabled = True, Concurrency = - 1,
        XudpConcurrency = 16, XudpProxyUDP443 = ''skip'' \<rparr> \<rparr>"]
    by (simp add: conf_negative_def)
  ultimately show ?thesis
    using h1 h2 by blast
qed

subsection \<open>Dispatch\<close>

lemma Dispatch_out_shape:
  "Dispatch_out E link =
     [Proxy_Process link]
     @ (case proxy_Process E link of
          None \<Rightarrow> common_Close_Writer (Writer link)
        | Some e \<Rightarrow>
            if errors_Is e io_EOF \<or> errors_Is e io_ErrClosedPipe \<or> errors_Is e context_Canceled
            then common_Close_Writer (Writer link)
            else [SubmitOutboundErrorToOriginator
                    (Xray (Base (errors_New [Str ''failed to process outbound traffic'']) e)),
                  LogInfo (Xray (Base (errors_New [Str ''failed to process outbound traffic'']) e))]
                 @ common_Interrupt_Writer (Writer link))
     @ common_Interrupt_Reader (Reader link)"
  by (simp add: Dispatch_out_def Let_def split: option.splits)

lemma common_Interrupt_Writer_events:
  "set (common_Interrupt_Writer w) \<subseteq> {Interrupt_Writer w}"
  by (cases w) simp_all

lemma common_Close_Writer_events: "set (common_Close_Writer w) \<subseteq> {Close_Writer w}"
  by (cases w) simp_all

lemma common_Interrupt_Reader_events:
  "set (common_Interrupt_Reader r) \<subseteq> {Interrupt_Reader r}"
  by (cases r) simp_all

lemma Dispatch_test_no_process: "Proxy_Process l \<notin> set (Dispatch_test link err)"
  using common_Interrupt_Writer_events [of "Writer link"]
  by (auto simp: Dispatch_test_def Let_def split: option.splits)

lemma Dispatch_out_process: "Proxy_Process l \<in> set (Dispatch_out E link) \<Longrightarrow> l = link"
  using common_Interrupt_Writer_events [of "Writer link"]
    common_Close_Writer_events [of "Writer link"]
    common_Interrupt_Reader_events [of "Reader link"]
  by (auto simp: Dispatch_out_shape split: option.splits if_splits)

text \<open>
  The UDP/443 policy, for every flow whose target is UDP port 443 on a handler with a mux
  pool. With \<^verbatim>\<open>reject\<close>: one report to the originator of the rejection (marked
  info-level, under the wrapper of the mux path), one info log, the interrupt of the
  link's writer, and nothing else. With \<^verbatim>\<open>skip\<close>: the direct path, which starts
  with the proxy's \<^verbatim>\<open>Process\<close> and calls no pool. With any other policy: the xudp
  pool if there is one (the direct path if it is disabled), else the mux pool if it is
  enabled, else the direct path.
\<close>

lemma Dispatch_udp443_policy:
  assumes "outbounds \<noteq> []"
    and "dest_Network (Target (last outbounds)) = Network_UDP"
    and "dest_Port (Target (last outbounds)) = 443"
    and "mux h = Some m"
    and "link' = Dispatch_override (last outbounds) link"
  shows "(udp443 h = ''reject'' \<longrightarrow>
            Dispatch E h outbounds link =
              Inr ([SubmitOutboundErrorToOriginator
                      (Xray (Base (errors_New [Str ''failed to process mux outbound traffic''])
                         (Xray (AtInfo (errors_New [Str ''XUDP rejected UDP/443 traffic'']))))),
                    LogInfo
                      (Xray (Base (errors_New [Str ''failed to process mux outbound traffic''])
                         (Xray (AtInfo (errors_New [Str ''XUDP rejected UDP/443 traffic'']))))) ]
                   @ common_Interrupt_Writer (Writer link'), link')) \<and>
         (udp443 h = ''skip'' \<longrightarrow>
            Dispatch E h outbounds link =
              Inr ([Proxy_Process link']
                   @ (case proxy_Process E link' of
                        None \<Rightarrow> common_Close_Writer (Writer link')
                      | Some e \<Rightarrow>
                          if errors_Is e io_EOF \<or> errors_Is e io_ErrClosedPipe
                             \<or> errors_Is e context_Canceled
                          then common_Close_Writer (Writer link')
                          else [SubmitOutboundErrorToOriginator
                                  (Xray (Base (errors_New
                                     [Str ''failed to process outbound traffic'']) e)),
                                LogInfo
                                  (Xray (Base (errors_New
                                     [Str ''failed to process outbound traffic'']) e))]
                               @ common_Interrupt_Writer (Writer link'))
                   @ common_Interrupt_Reader (Reader link'), link')) \<and>
         (udp443 h \<noteq> ''reject'' \<and> udp443 h \<noteq> ''skip'' \<longrightarrow>
            Dispatch E h outbounds link =
              Inr ((case xudp h of
                      Some x \<Rightarrow>
                        if Enabled x
                        then [Xudp_Dispatch link'] @ Dispatch_test link' (xudp_Dispatch E link')
                        else Dispatch_out E link'
                    | None \<Rightarrow>
                        if Enabled m
                        then [Mux_Dispatch link'] @ Dispatch_test link' (mux_Dispatch E link')
                        else Dispatch_out E link'), link'))"
  using assms
  by (auto simp: Dispatch_def Let_def Dispatch_test_def Dispatch_out_shape
      split: option.splits)

text \<open>
  The direct path, for every flow: whenever \<^verbatim>\<open>Dispatch\<close> calls the proxy's
  \<^verbatim>\<open>Process\<close>, that is the first thing it does, on the link as \<^verbatim>\<open>Dispatch\<close>
  leaves it; then it reports and logs an error that is none of \<^verbatim>\<open>io.EOF\<close>,
  \<^verbatim>\<open>io.ErrClosedPipe\<close> and \<^verbatim>\<open>context.Canceled\<close> and calls
  \<^verbatim>\<open>common.Interrupt\<close> on the link's writer, or else calls \<^verbatim>\<open>common.Close\<close>
  on it; last it calls \<^verbatim>\<open>common.Interrupt\<close> on the link's reader.
\<close>

lemma Dispatch_direct_path_order:
  assumes "Dispatch E h outbounds link = Inr (trace, link')"
    and "Proxy_Process l \<in> set trace"
  shows "l = link' \<and>
     trace =
       [Proxy_Process link']
       @ (case proxy_Process E link' of
            None \<Rightarrow> common_Close_Writer (Writer link')
          | Some e \<Rightarrow>
              if errors_Is e io_EOF \<or> errors_Is e io_ErrClosedPipe \<or> errors_Is e context_Canceled
              then common_Close_Writer (Writer link')
              else [SubmitOutboundErrorToOriginator
                      (Xray (Base (errors_New [Str ''failed to process outbound traffic'']) e)),
                    LogInfo (Xray (Base (errors_New [Str ''failed to process outbound traffic'']) e))]
                   @ common_Interrupt_Writer (Writer link'))
       @ common_Interrupt_Reader (Reader link')"
proof -
  from assms(1) have ne: "outbounds \<noteq> []" and l: "link' = Dispatch_override (last outbounds) link"
    by (auto simp: Dispatch_def Let_def split: if_splits)
  have "trace = Dispatch_out E link'"
    using assms ne Dispatch_test_no_process [of l link']
    by (auto simp: Dispatch_def Let_def l split: if_splits option.splits)
  then show ?thesis
    using assms(2) Dispatch_out_process [of l E link'] Dispatch_out_shape [of E link']
    by simp
qed

text \<open>
  Claim C1: for a UDP/443 flow on a handler with a mux pool and the policy
  \<^verbatim>\<open>reject\<close>, \<^verbatim>\<open>Dispatch\<close> invokes no pool, reports exactly one info-level error
  to the originator and interrupts the link writer. The code falls short of the last
  part on a flow whose target was rewritten: \<^verbatim>\<open>Dispatch\<close> has wrapped the link in
  endpoint-override adapters by then, the interrupt goes to the adapter, and the pipe's
  writer is not interrupted. On the same flow without an original target it is.
\<close>

theorem C1_reject_on_overridden_link:
  "Dispatch E_fail (h_policy ''reject'') [ob_udp443_nat] link_ex =
     Inr ([SubmitOutboundErrorToOriginator
             (Xray (Base (errors_New [Str ''failed to process mux outbound traffic''])
                (Xray (AtInfo (errors_New [Str ''XUDP rejected UDP/443 traffic'']))))),
           LogInfo
             (Xray (Base (errors_New [Str ''failed to process mux outbound traffic''])
                (Xray (AtInfo (errors_New [Str ''XUDP rejected UDP/443 traffic''])))))],
          link_nat) \<and>
   Dispatch E_fail (h_policy ''reject'') [ob_udp443] link_ex =
     Inr ([SubmitOutboundErrorToOriginator
             (Xray (Base (errors_New [Str ''failed to process mux outbound traffic''])
                (Xray (AtInfo (errors_New [Str ''XUDP rejected UDP/443 traffic'']))))),
           LogInfo
             (Xray (Base (errors_New [Str ''failed to process mux outbound traffic''])
                (Xray (AtInfo (errors_New [Str ''XUDP rejected UDP/443 traffic'']))))),
           Interrupt_Writer (PipeWriter 1)],
          link_ex)"
  by code_simp

text \<open>
  Claim C6: on the direct path the writer is interrupted after a failure and closed
  otherwise, and the reader is interrupted last, so that both directions of the link
  terminate. The code falls short of it on a UDP flow whose target was rewritten: the
  link is wrapped in endpoint-override adapters, the three calls go to the adapters, and
  neither end of the pipe is closed or interrupted, after a failure of the proxy as after
  a clean end. On a flow that is not wrapped the events are there, in the claimed order.
\<close>

theorem C6_direct_path_on_overridden_link:
  "Dispatch E_fail h_direct [ob_udp443_nat] link_ex =
     Inr ([Proxy_Process link_nat,
           SubmitOutboundErrorToOriginator
             (Xray (Base (errors_New [Str ''failed to process outbound traffic''])
                (OtherError ''connection reset''))),
           LogInfo
             (Xray (Base (errors_New [Str ''failed to process outbound traffic''])
                (OtherError ''connection reset'')))],
          link_nat) \<and>
   Dispatch E_eof h_direct [ob_udp443_nat] link_ex = Inr ([Proxy_Process link_nat], link_nat) \<and>
   Dispatch E_fail h_direct [ob_tcp] link_ex =
     Inr ([Proxy_Process link_ex,
           SubmitOutboundErrorToOriginator
             (Xray (Base (errors_New [Str ''failed to process outbound traffic''])
                (OtherError ''connection reset''))),
           LogInfo
             (Xray (Base (errors_New [Str ''failed to process outbound traffic''])
                (OtherError ''connection reset''))),
           Interrupt_Writer (PipeWriter 1),
           Interrupt_Reader (PipeReader 0)],
          link_ex) \<and>
   Dispatch E_eof h_direct [ob_tcp] link_ex =
     Inr ([Proxy_Process link_ex, Close_Writer (PipeWriter 1), Interrupt_Reader (PipeReader 0)],
          link_ex)"
  by code_simp

end
